theory Spec2Isabelle
  imports Main "HOL-Library.Word" "HOL-Library.Sublist"
begin

section \<open>The data of \<^verbatim>\<open>runtime/lib/ffi_dynamic_library.cc\<close>\<close>

text \<open>
  The development embeds the build of the file in which the natives are implemented
  (the \<^verbatim>\<open>#else\<close> branch that starts at line 62; in a simulator or precompiler build
  every native throws \<^verbatim>\<open>UnsupportedError\<close> and no library object exists).

  A \<^verbatim>\<open>void*\<close>, an \<^verbatim>\<open>intptr_t\<close>, a \<^verbatim>\<open>uintptr_t\<close> and a \<^verbatim>\<open>uword\<close> are words of the
  pointer width \<open>'w\<close> of the build (32 or 64 bits); \<^verbatim>\<open>nullptr\<close> is the word \<open>0\<close>.
  The records and datatypes take the pointer type as the parameter \<open>'p\<close>, which every
  function instantiates with \<open>'w word\<close>.
  A C string is a \<^typ>\<open>string\<close>; a \<^verbatim>\<open>const char*\<close> that may be \<^verbatim>\<open>nullptr\<close> is a
  \<^typ>\<open>string option\<close>. A \<^verbatim>\<open>char* error\<close> cell is a \<^typ>\<open>string option\<close> too, \<open>None\<close> for
  \<^verbatim>\<open>nullptr\<close>. Every caller in the file initialises the cell to \<^verbatim>\<open>nullptr\<close> before it
  passes its address (lines 139, 159, 189 and 264), so a function with a
  \<^verbatim>\<open>char** error\<close> parameter returns the content of the cell next to its result.
\<close>

datatype host_os = Windows | Linux | MacOS | Android | Fuchsia

text \<open>
  \<^verbatim>\<open>Dart_FfiNativeResolver\<close> is \<^verbatim>\<open>void* (*)(const char* name, uintptr_t args_n)\<close>;
  \<^verbatim>\<open>lib.ffi_native_resolver()\<close> is \<^verbatim>\<open>nullptr\<close> (\<open>None\<close>) when the library installed none.
\<close>

datatype 'p Library = Library (ffi_native_resolver: "(string \<Rightarrow> 'p \<Rightarrow> 'p) option")

datatype 'p DynamicLibrary = DynamicLibrary_New (GetHandle: 'p)

datatype exception = ArgumentError string

text \<open>
  What the file calls and does not define is a parameter: the platform layer
  (\<^verbatim>\<open>Utils::LoadDynamicLibrary\<close>, \<^verbatim>\<open>Utils::ResolveSymbolInDynamicLibrary\<close>, which return
  their result and what they stored in their error cell), the constant \<^verbatim>\<open>RTLD_DEFAULT\<close>
  of \<^verbatim>\<open>dlfcn.h\<close>, the Windows API, and the library table of the isolate.
  \<^verbatim>\<open>OpenProcess\<close> stands for the call of line 98 on the current process id.
  \<^verbatim>\<open>EnumProcessModules h cb\<close> returns whether the call returned non-zero, the entries
  it stored in the buffer of \<open>cb\<close> bytes, and \<^verbatim>\<open>cb_needed\<close> (a \<^verbatim>\<open>DWORD\<close>).
\<close>

record 'p platform =
  host :: host_os
  RTLD_DEFAULT :: 'p
  Utils_LoadDynamicLibrary :: "string option \<Rightarrow> 'p \<times> string option"
  Utils_ResolveSymbolInDynamicLibrary :: "'p \<Rightarrow> string \<Rightarrow> 'p \<times> string option"
  CoTaskMemAlloc :: 'p
  OpenProcess :: 'p
  EnumProcessModules :: "'p \<Rightarrow> nat \<Rightarrow> bool \<times> 'p list \<times> 32 word"
  GetProcAddress :: "'p \<Rightarrow> string \<Rightarrow> 'p"
  LookupLibrary :: "string \<Rightarrow> 'p Library option"

text \<open>The calls the file makes into the platform and into a registered resolver.\<close>

datatype 'p call =
    Call_Utils_LoadDynamicLibrary "string option"
  | Call_Utils_ResolveSymbolInDynamicLibrary 'p string
  | Call_CoTaskMemAlloc
  | Call_CoTaskMemFree 'p
  | Call_OpenProcess
  | Call_EnumProcessModules 'p
  | Call_GetProcAddress 'p string
  | Call_CloseHandle 'p
  | Call_resolver string 'p

text \<open>
  The state the file reads and writes: the global \<^verbatim>\<open>co_task_mem_allocated\<close> (line 86),
  the error messages that were allocated with \<^verbatim>\<open>malloc\<close> and are owned by the running
  code (most recent first), and the calls made so far (oldest first).
\<close>

record 'p vm_state =
  co_task_mem_allocated :: 'p
  live_errors :: "string list"
  calls :: "'p call list"

definition call :: "'p call \<Rightarrow> 'p vm_state \<Rightarrow> 'p vm_state" where
  "call c s = s\<lparr>calls := calls s @ [c]\<rparr>"

definition owned :: "string \<Rightarrow> 'p vm_state \<Rightarrow> 'p vm_state" where
  "owned m s = s\<lparr>live_errors := m # live_errors s\<rparr>"

definition own_error :: "string option \<Rightarrow> 'p vm_state \<Rightarrow> 'p vm_state" where
  "own_error e s = (case e of None \<Rightarrow> s | Some m \<Rightarrow> owned m s)"

definition free :: "string \<Rightarrow> 'p vm_state \<Rightarrow> 'p vm_state" where
  "free m s = s\<lparr>live_errors := remove1 m (live_errors s)\<rparr>"

text \<open>
  \<^verbatim>\<open>OS::SCreate(nullptr, format, ...)\<close> allocates the formatted text with \<^verbatim>\<open>malloc\<close>;
  the \<^verbatim>\<open>%s\<close> of a format is written as the concatenation it prints.
\<close>

definition OS_SCreate :: "string \<Rightarrow> 'p vm_state \<Rightarrow> string \<times> 'p vm_state" where
  "OS_SCreate text s = (text, owned text s)"

definition apostrophe :: string where
  "apostrophe = [CHR 0x27]"

section \<open>The functions\<close>

subsection \<open>\<^verbatim>\<open>LoadDynamicLibrary\<close> (lines 67 to 80)\<close>

text \<open>
  \<open>error_given\<close> says whether the caller passed an error cell (\<^verbatim>\<open>error != nullptr\<close>);
  the parameter defaults to \<^verbatim>\<open>nullptr\<close>. The message of the platform layer is owned
  from the call to the \<^verbatim>\<open>free\<close> of line 77.
\<close>

definition LoadDynamicLibrary ::
  "('w::len) word platform \<Rightarrow> string option \<Rightarrow> bool \<Rightarrow> 'w word vm_state
    \<Rightarrow> ('w word \<times> string option) \<times> 'w word vm_state" where
  "LoadDynamicLibrary p library_file error_given s =
     (let (handle, utils_error) = Utils_LoadDynamicLibrary p library_file;
          s1 = own_error utils_error (call (Call_Utils_LoadDynamicLibrary library_file) s)
      in case utils_error of
           None \<Rightarrow> ((handle, None), s1)
         | Some u \<Rightarrow>
             if error_given then
               let (m, s2) = OS_SCreate
                     (''Failed to load dynamic library '' @ apostrophe
                        @ (case library_file of Some f \<Rightarrow> f | None \<Rightarrow> ''<process>'')
                        @ apostrophe @ '': '' @ u) s1
               in ((handle, Some m), free u s2)
             else ((handle, None), free u s1))"

subsection \<open>\<^verbatim>\<open>LookupSymbolInProcess\<close> (lines 82 to 125, Windows only)\<close>

definition kWindowsDynamicLibraryProcessPtr :: "('w::len) word" where
  "kWindowsDynamicLibraryProcessPtr = 0"

definition sizeof_HMODULE :: "('w::len) word platform \<Rightarrow> nat" where
  "sizeof_HMODULE p = LENGTH('w) div 8"

text \<open>
  The loop of lines 109 to 115, from index \<open>i\<close>, with \<open>n\<close> for
  \<^verbatim>\<open>cb_needed / sizeof(HMODULE)\<close>. \<open>Some (Some result, s)\<close> is the \<^verbatim>\<open>return\<close> of line 113
  (before its \<^verbatim>\<open>CloseHandle\<close>), \<open>Some (None, s)\<close> the end of the loop. \<^verbatim>\<open>modules\<close> is an
  uninitialised array of 1024 entries: reading \<^verbatim>\<open>modules[i]\<close> past the array, or an
  entry the enumeration did not store, is undefined in C++, and the loop is \<open>None\<close> there.
\<close>

function LookupSymbolInProcess_loop ::
  "('w::len) word platform \<Rightarrow> 'w word list \<Rightarrow> string \<Rightarrow> nat \<Rightarrow> nat \<Rightarrow> 'w word vm_state
    \<Rightarrow> ('w word option \<times> 'w word vm_state) option" where
  "LookupSymbolInProcess_loop p modules symbol n i s =
     (if i < n then
        if i < 1024 \<and> i < length modules then
          if GetProcAddress p (modules ! i) symbol \<noteq> 0
          then Some (Some (GetProcAddress p (modules ! i) symbol),
                     call (Call_GetProcAddress (modules ! i) symbol) s)
          else LookupSymbolInProcess_loop p modules symbol n (i + 1)
                 (call (Call_GetProcAddress (modules ! i) symbol) s)
        else None
      else Some (None, s))"
  by pat_completeness auto
termination
  by (relation "measure (\<lambda>(p, modules, symbol, n, i, s). n - i)") auto

declare LookupSymbolInProcess_loop.simps [simp del]

definition LookupSymbolInProcess ::
  "('w::len) word platform \<Rightarrow> string \<Rightarrow> 'w word vm_state
    \<Rightarrow> (('w word \<times> string option) \<times> 'w word vm_state) option" where
  "LookupSymbolInProcess p symbol s =
     (let s1 = (if co_task_mem_allocated s = 0
                then call (Call_CoTaskMemFree (CoTaskMemAlloc p))
                       (call Call_CoTaskMemAlloc
                          (s\<lparr>co_task_mem_allocated := CoTaskMemAlloc p\<rparr>))
                else s);
          current_process = OpenProcess p;
          s2 = call Call_OpenProcess s1
      in if current_process = 0 then
           let (m, s3) = OS_SCreate ''Failed to open current process.'' s2
           in Some ((0, Some m), s3)
         else
           let (ok, modules, cb_needed) =
                 EnumProcessModules p current_process (1024 * sizeof_HMODULE p);
               s3 = call (Call_EnumProcessModules current_process) s2
           in case (if ok
                    then LookupSymbolInProcess_loop p modules symbol
                           (unat cb_needed div sizeof_HMODULE p) 0 s3
                    else Some (None, s3)) of
                None \<Rightarrow> None
              | Some (Some result, s4) \<Rightarrow>
                  Some ((result, None), call (Call_CloseHandle current_process) s4)
              | Some (None, s4) \<Rightarrow>
                  let (m, s5) = OS_SCreate
                        (''None of the loaded modules contained the requested symbol ''
                           @ apostrophe @ symbol @ apostrophe @ ''.'')
                        (call (Call_CloseHandle current_process) s4)
                  in Some ((0, Some m), s5))"

subsection \<open>\<^verbatim>\<open>ResolveSymbol\<close> and \<^verbatim>\<open>SymbolExists\<close> (lines 127 to 154)\<close>

text \<open>
  A call of \<^verbatim>\<open>Utils::ResolveSymbolInDynamicLibrary(handle, symbol, &error)\<close>: the call is
  recorded and the message it stored, if any, is owned by the caller.
\<close>

definition ResolveSymbolInDynamicLibrary ::
  "('w::len) word platform \<Rightarrow> 'w word \<Rightarrow> string \<Rightarrow> 'w word vm_state
    \<Rightarrow> ('w word \<times> string option) \<times> 'w word vm_state" where
  "ResolveSymbolInDynamicLibrary p handle symbol s =
     (let (result, error) = Utils_ResolveSymbolInDynamicLibrary p handle symbol
      in ((result, error),
          own_error error (call (Call_Utils_ResolveSymbolInDynamicLibrary handle symbol) s)))"

definition ResolveSymbol ::
  "('w::len) word platform \<Rightarrow> 'w word \<Rightarrow> string \<Rightarrow> 'w word vm_state
    \<Rightarrow> (('w word \<times> string option) \<times> 'w word vm_state) option" where
  "ResolveSymbol p handle symbol s =
     (if host p = Windows \<and> handle = kWindowsDynamicLibraryProcessPtr
      then LookupSymbolInProcess p symbol s
      else Some (ResolveSymbolInDynamicLibrary p handle symbol s))"

definition SymbolExists ::
  "('w::len) word platform \<Rightarrow> 'w word \<Rightarrow> string \<Rightarrow> 'w word vm_state
    \<Rightarrow> (bool \<times> 'w word vm_state) option" where
  "SymbolExists p handle symbol s =
     (case (if host p \<noteq> Windows
            then Some (ResolveSymbolInDynamicLibrary p handle symbol s)
            else if handle = 0
            then LookupSymbolInProcess p symbol s
            else Some (ResolveSymbolInDynamicLibrary p handle symbol s)) of
        None \<Rightarrow> None
      | Some ((result, error), s1) \<Rightarrow>
          (case error of
             Some e \<Rightarrow> Some (False, free e s1)
           | None \<Rightarrow> Some (True, s1)))"

subsection \<open>The natives of \<^verbatim>\<open>DynamicLibrary\<close> (lines 156 to 215)\<close>

text \<open>
  \<^verbatim>\<open>Exceptions::ThrowArgumentError(msg)\<close> does not return: the native is \<open>Inl\<close> of the
  exception. The arguments are the non-null values that \<^verbatim>\<open>GET_NON_NULL_NATIVE_ARGUMENT\<close>
  lets through.
\<close>

definition Ffi_dl_open ::
  "('w::len) word platform \<Rightarrow> string \<Rightarrow> 'w word vm_state
    \<Rightarrow> (exception + 'w word DynamicLibrary) \<times> 'w word vm_state" where
  "Ffi_dl_open p lib_path s =
     (let ((handle, error), s1) = LoadDynamicLibrary p (Some lib_path) True s
      in case error of
           Some e \<Rightarrow> (Inl (ArgumentError e), free e s1)
         | None \<Rightarrow> (Inr (DynamicLibrary_New handle), s1))"

definition Ffi_dl_processLibrary :: "('w::len) word platform \<Rightarrow> 'w word DynamicLibrary" where
  "Ffi_dl_processLibrary p =
     (if host p = Linux \<or> host p = MacOS \<or> host p = Android \<or> host p = Fuchsia
      then DynamicLibrary_New (RTLD_DEFAULT p)
      else DynamicLibrary_New kWindowsDynamicLibraryProcessPtr)"

definition Ffi_dl_executableLibrary ::
  "('w::len) word platform \<Rightarrow> 'w word vm_state
    \<Rightarrow> 'w word DynamicLibrary \<times> 'w word vm_state" where
  "Ffi_dl_executableLibrary p s =
     (let ((handle, error), s1) = LoadDynamicLibrary p None False s
      in (DynamicLibrary_New handle, s1))"

definition Ffi_dl_lookup ::
  "('w::len) word platform \<Rightarrow> 'w word DynamicLibrary \<Rightarrow> string \<Rightarrow> 'w word vm_state
    \<Rightarrow> ((exception + 'w word) \<times> 'w word vm_state) option" where
  "Ffi_dl_lookup p dlib argSymbolName s =
     (case ResolveSymbol p (GetHandle dlib) argSymbolName s of
        None \<Rightarrow> None
      | Some ((pointer, error), s1) \<Rightarrow>
          (case error of
             Some e \<Rightarrow>
               Some (Inl (ArgumentError
                       (''Failed to lookup symbol '' @ apostrophe @ argSymbolName
                          @ apostrophe @ '': '' @ e)),
                     free e s1)
           | None \<Rightarrow> Some (Inr pointer, s1)))"

text \<open>
  Line 204 converts the handle to \<^verbatim>\<open>intptr_t\<close>, and the call of line 205 converts that
  signed value to the \<^verbatim>\<open>uint64_t\<close> parameter of \<^verbatim>\<open>Integer::NewFromUint64\<close>. The native
  is modelled up to that argument.
\<close>

definition Ffi_dl_getHandle :: "('w::len) word DynamicLibrary \<Rightarrow> 64 word" where
  "Ffi_dl_getHandle dlib = (let handle = GetHandle dlib in word_of_int (sint handle))"

definition Ffi_dl_providesSymbol ::
  "('w::len) word platform \<Rightarrow> 'w word DynamicLibrary \<Rightarrow> string \<Rightarrow> 'w word vm_state
    \<Rightarrow> (bool \<times> 'w word vm_state) option" where
  "Ffi_dl_providesSymbol p dlib argSymbolName s = SymbolExists p (GetHandle dlib) argSymbolName s"

subsection \<open>The resolver of FFI natives (lines 217 to 293)\<close>

definition GetFfiNativeResolver ::
  "('w::len) word platform \<Rightarrow> string \<Rightarrow> (string \<Rightarrow> 'w word \<Rightarrow> 'w word) option" where
  "GetFfiNativeResolver p lib_url_str =
     (case LookupLibrary p lib_url_str of
        None \<Rightarrow> None
      | Some lib \<Rightarrow> ffi_native_resolver lib)"

definition FfiResolveWithFfiNativeResolver ::
  "(string \<Rightarrow> ('w::len) word \<Rightarrow> 'w word) \<Rightarrow> string \<Rightarrow> 'w word \<Rightarrow> 'w word vm_state
    \<Rightarrow> ('w word \<times> string option) \<times> 'w word vm_state" where
  "FfiResolveWithFfiNativeResolver resolver symbol args_n s =
     (let result = resolver symbol args_n;
          s1 = call (Call_resolver symbol args_n) s
      in if result = 0 then
           let (m, s2) = OS_SCreate
                 (''Couldn't resolve function: '' @ apostrophe @ symbol @ apostrophe) s1
           in ((result, Some m), s2)
         else ((result, None), s1))"

definition ThrowFfiResolveError ::
  "string \<Rightarrow> string \<Rightarrow> string \<Rightarrow> ('w::len) word vm_state \<Rightarrow> exception \<times> 'w word vm_state" where
  "ThrowFfiResolveError symbol asset error s =
     (ArgumentError
        (''Couldn't resolve native function '' @ apostrophe @ symbol @ apostrophe
           @ '' in '' @ apostrophe @ asset @ apostrophe @ '' : '' @ error
           @ ''.'' @ [CHR 0x0A]),
      free error s)"

text \<open>
  \<^verbatim>\<open>args_n\<close> arrives as \<^verbatim>\<open>uintptr_t\<close>, is passed on as \<^verbatim>\<open>intptr_t\<close> and reaches the
  resolver as \<^verbatim>\<open>uintptr_t\<close>: the same word throughout.
\<close>

definition FfiResolve ::
  "('w::len) word platform \<Rightarrow> string \<Rightarrow> string \<Rightarrow> 'w word \<Rightarrow> 'w word vm_state
    \<Rightarrow> ((exception + 'w word) \<times> 'w word vm_state) option" where
  "FfiResolve p asset symbol args_n s =
     (case GetFfiNativeResolver p asset of
        Some resolver \<Rightarrow>
          (let ((ffi_native_result, error), s1) =
                 FfiResolveWithFfiNativeResolver resolver symbol args_n s
           in case error of
                Some e \<Rightarrow>
                  (let (exn, s2) = ThrowFfiResolveError symbol asset e s1
                   in Some (Inl exn, s2))
              | None \<Rightarrow> Some (Inr ffi_native_result, s1))
      | None \<Rightarrow>
          (case (if host p \<noteq> Windows
                 then Some (ResolveSymbolInDynamicLibrary p (RTLD_DEFAULT p) symbol s)
                 else LookupSymbolInProcess p symbol s) of
             None \<Rightarrow> None
           | Some ((result, error), s1) \<Rightarrow>
               (case error of
                  Some e \<Rightarrow>
                    (let (exn, s2) = ThrowFfiResolveError symbol asset e s1
                     in Some (Inl exn, s2))
                | None \<Rightarrow> Some (Inr result, s1))))"

section \<open>Notions used by the properties\<close>

text \<open>The calls made between two states, and a state with calls added.\<close>

definition new_calls :: "'p vm_state \<Rightarrow> 'p vm_state \<Rightarrow> 'p call list" where
  "new_calls s s' = drop (length (calls s)) (calls s')"

definition appended :: "'p call list \<Rightarrow> 'p vm_state \<Rightarrow> 'p vm_state" where
  "appended cs s = s\<lparr>calls := calls s @ cs\<rparr>"

text \<open>The per-module lookups of a symbol on a list of modules, in the order of the list.\<close>

definition probes :: "string \<Rightarrow> 'p list \<Rightarrow> 'p call list" where
  "probes symbol ms = map (\<lambda>m. Call_GetProcAddress m symbol) ms"

text \<open>The calls of the forced load of \<^verbatim>\<open>ole32.dll\<close> (lines 92 to 95) from a state.\<close>

definition force_load_calls :: "('w::len) word platform \<Rightarrow> 'w word vm_state \<Rightarrow> 'w word call list" where
  "force_load_calls p s =
     (if co_task_mem_allocated s = 0
      then [Call_CoTaskMemAlloc, Call_CoTaskMemFree (CoTaskMemAlloc p)] else [])"

definition not_found_message :: "string \<Rightarrow> string" where
  "not_found_message symbol =
     ''None of the loaded modules contained the requested symbol ''
       @ apostrophe @ symbol @ apostrophe @ ''.''"

text \<open>
  A pair of a pointer and an error cell is exclusive when it is not both a non-null
  pointer and a message; it reports failure when a null pointer comes with a message.
  \<^verbatim>\<open>Utils::LoadDynamicLibrary\<close> and \<^verbatim>\<open>Utils::ResolveSymbolInDynamicLibrary\<close> are not in
  the file; where a property of the file depends on what they return, it has one of
  these two predicates on their result as a hypothesis. The spec gives both to the
  native loader and lookup (4.1 and 4.2: success yields a non-null pointer, failure a
  null pointer and an error).
\<close>

definition exclusive :: "('w::len) word \<times> string option \<Rightarrow> bool" where
  "exclusive r = (\<not> (fst r \<noteq> 0 \<and> snd r \<noteq> None))"

definition reports_failure :: "('w::len) word \<times> string option \<Rightarrow> bool" where
  "reports_failure r = (fst r = 0 \<longrightarrow> snd r \<noteq> None)"

text \<open>
  The enumeration stays inside what it stored: \<^verbatim>\<open>cb_needed / sizeof(HMODULE)\<close> is at most
  the number of stored entries and at most the 1024 entries of the array.
\<close>

definition snapshot_in_bounds :: "('w::len) word platform \<Rightarrow> bool" where
  "snapshot_in_bounds p =
     (case EnumProcessModules p (OpenProcess p) (1024 * sizeof_HMODULE p) of
        (ok, modules, cb_needed) \<Rightarrow>
          ok \<longrightarrow> unat cb_needed div sizeof_HMODULE p \<le> min (length modules) 1024)"

text \<open>Scans made one after the other, each against the platform as it then answers.\<close>

fun scans ::
  "(('w::len) word platform \<times> string) list \<Rightarrow> 'w word vm_state \<Rightarrow> 'w word vm_state option" where
  "scans [] s = Some s"
| "scans ((p, symbol) # rest) s =
     (case LookupSymbolInProcess p symbol s of
        None \<Rightarrow> None
      | Some (r, s') \<Rightarrow> scans rest s')"

text \<open>The value of \<^verbatim>\<open>co_task_mem_allocated\<close> after lines 92 to 95.\<close>

definition forced :: "('w::len) word platform \<Rightarrow> 'w word vm_state \<Rightarrow> 'w word" where
  "forced p s =
     (if co_task_mem_allocated s = 0 then CoTaskMemAlloc p else co_task_mem_allocated s)"

text \<open>The texts of the errors, as the formats of lines 74, 239 and 249 print them.\<close>

definition load_failed_message :: "string option \<Rightarrow> string \<Rightarrow> string" where
  "load_failed_message library_file diagnostic =
     ''Failed to load dynamic library '' @ apostrophe
       @ (case library_file of Some f \<Rightarrow> f | None \<Rightarrow> ''<process>'')
       @ apostrophe @ '': '' @ diagnostic"

definition resolver_failed_message :: "string \<Rightarrow> string \<Rightarrow> string" where
  "resolver_failed_message symbol asset =
     ''Couldn't resolve native function '' @ apostrophe @ symbol @ apostrophe
       @ '' in '' @ apostrophe @ asset @ apostrophe @ '' : ''
       @ (''Couldn't resolve function: '' @ apostrophe @ symbol @ apostrophe)
       @ ''.'' @ [CHR 0x0A]"

text \<open>
  The two ways in which a scan that opened the process finds nothing: the enumeration
  call fails, or it succeeds within the array and no enumerated module has the symbol.
\<close>

definition enumeration_fails :: "('w::len) word platform \<Rightarrow> bool" where
  "enumeration_fails p =
     (OpenProcess p \<noteq> 0
      \<and> \<not> fst (EnumProcessModules p (OpenProcess p) (1024 * sizeof_HMODULE p)))"

definition symbol_absent :: "('w::len) word platform \<Rightarrow> string \<Rightarrow> bool" where
  "symbol_absent p symbol =
     (OpenProcess p \<noteq> 0
      \<and> (case EnumProcessModules p (OpenProcess p) (1024 * sizeof_HMODULE p) of
           (ok, modules, cb_needed) \<Rightarrow>
             ok \<and> unat cb_needed div sizeof_HMODULE p \<le> min (length modules) 1024
             \<and> list_all (\<lambda>m. GetProcAddress p m symbol = 0)
                  (take (unat cb_needed div sizeof_HMODULE p) modules)))"

subsection \<open>Concrete platforms and states\<close>

definition initial_state :: "64 word vm_state" where
  "initial_state = \<lparr>co_task_mem_allocated = 0, live_errors = [], calls = []\<rparr>"

definition asset_resolver :: "string \<Rightarrow> 64 word \<Rightarrow> 64 word" where
  "asset_resolver symbol args_n = (if symbol = ''add_ints'' \<and> args_n = 2 then 0x2000 else 0)"

definition asset_table :: "string \<Rightarrow> 64 word Library option" where
  "asset_table url =
     (if url = ''my_asset'' then Some (Library (Some asset_resolver))
      else if url = ''plain_asset'' then Some (Library None)
      else None)"

definition linux_host :: "64 word platform" where
  "linux_host =
     \<lparr>host = Linux,
      RTLD_DEFAULT = 0,
      Utils_LoadDynamicLibrary =
        (\<lambda>f. if f = Some ''libfoo.so'' then (0x7000, None)
             else (0, Some ''cannot open shared object file'')),
      Utils_ResolveSymbolInDynamicLibrary =
        (\<lambda>h symbol. if symbol = ''puts'' then (0x1000, None)
                    else if h = 0x7000 \<and> symbol = ''add_ints'' then (0x7100, None)
                    else (0, Some ''undefined symbol'')),
      CoTaskMemAlloc = 0,
      OpenProcess = 0,
      EnumProcessModules = (\<lambda>h cb. (False, [], 0)),
      GetProcAddress = (\<lambda>m symbol. 0),
      LookupLibrary = asset_table\<rparr>"

definition windows_host :: "64 word platform" where
  "windows_host =
     \<lparr>host = Windows,
      RTLD_DEFAULT = 0,
      Utils_LoadDynamicLibrary =
        (\<lambda>f. if f = Some ''foo.dll'' then (0x7000, None)
             else (0, Some ''The specified module could not be found.'')),
      Utils_ResolveSymbolInDynamicLibrary =
        (\<lambda>h symbol. if h = 0x7000 \<and> symbol = ''add_ints'' then (0x7100, None)
                    else (0, Some ''The specified procedure could not be found.'')),
      CoTaskMemAlloc = 0x500,
      OpenProcess = 0x44,
      EnumProcessModules = (\<lambda>h cb. (True, [0x10000, 0x20000, 0x30000], 24)),
      GetProcAddress =
        (\<lambda>m symbol. if m = 0x20000 \<and> symbol = ''puts'' then 0x20040
                    else if m = 0x30000 \<and> symbol = ''puts'' then 0x30040
                    else 0),
      LookupLibrary = asset_table\<rparr>"

text \<open>
  The Windows platform when \<^verbatim>\<open>OpenProcess\<close> fails, when \<^verbatim>\<open>EnumProcessModules\<close> fails,
  and a state in which \<^verbatim>\<open>ole32.dll\<close> was forced to load before.
\<close>

definition no_process_host :: "64 word platform" where
  "no_process_host = windows_host\<lparr>OpenProcess := 0\<rparr>"

definition no_enumeration_host :: "64 word platform" where
  "no_enumeration_host = windows_host\<lparr>EnumProcessModules := (\<lambda>h cb. (False, [], 0))\<rparr>"

definition warm_state :: "64 word vm_state" where
  "warm_state = initial_state\<lparr>co_task_mem_allocated := 0x500\<rparr>"

text \<open>
  The Linux platform with a library that has the symbol \<^verbatim>\<open>null_sym\<close> whose value is the
  null pointer: the lookup returns null and stores no message.
\<close>

definition null_symbol_host :: "64 word platform" where
  "null_symbol_host =
     linux_host\<lparr>Utils_ResolveSymbolInDynamicLibrary :=
                  (\<lambda>h symbol. if h = 0x7000 \<and> symbol = ''null_sym'' then (0, None)
                              else (0, Some ''undefined symbol''))\<rparr>"

text \<open>
  The Windows platform with 1025 loaded modules, none of which has any symbol: the
  enumeration stores the 1024 handles that fit the buffer and reports the
  \<open>1025 * 8 = 8200\<close> bytes that all handles need.
\<close>

definition crowded_host :: "64 word platform" where
  "crowded_host =
     windows_host\<lparr>EnumProcessModules :=
                    (\<lambda>h cb. (True, map (\<lambda>i. 0x10000 * of_nat (Suc i)) [0..<1024], 8200)),
                  GetProcAddress := (\<lambda>m symbol. 0)\<rparr>"

section \<open>Lemmas on the state and on the scan\<close>

lemma call_simps [simp]:
  "co_task_mem_allocated (call c s) = co_task_mem_allocated s"
  "live_errors (call c s) = live_errors s"
  "calls (call c s) = calls s @ [c]"
  by (simp_all add: call_def)

lemma owned_simps [simp]:
  "co_task_mem_allocated (owned m s) = co_task_mem_allocated s"
  "live_errors (owned m s) = m # live_errors s"
  "calls (owned m s) = calls s"
  by (simp_all add: owned_def)

lemma free_simps [simp]:
  "co_task_mem_allocated (free m s) = co_task_mem_allocated s"
  "live_errors (free m s) = remove1 m (live_errors s)"
  "calls (free m s) = calls s"
  by (simp_all add: free_def)

lemma own_error_simps [simp]:
  "co_task_mem_allocated (own_error e s) = co_task_mem_allocated s"
  "live_errors (own_error e s) = (case e of None \<Rightarrow> live_errors s | Some m \<Rightarrow> m # live_errors s)"
  "calls (own_error e s) = calls s"
  by (simp_all add: own_error_def split: option.splits)

lemma appended_simps [simp]:
  "co_task_mem_allocated (appended cs s) = co_task_mem_allocated s"
  "live_errors (appended cs s) = live_errors s"
  "calls (appended cs s) = calls s @ cs"
  by (simp_all add: appended_def)

lemma loop_in_bounds:
  "n \<le> length modules \<Longrightarrow> n \<le> 1024 \<Longrightarrow> i \<le> n \<Longrightarrow>
   LookupSymbolInProcess_loop p modules symbol n i s =
     (case find (\<lambda>m. GetProcAddress p m symbol \<noteq> 0) (drop i (take n modules)) of
        None \<Rightarrow> Some (None, appended (probes symbol (drop i (take n modules))) s)
      | Some m \<Rightarrow>
          Some (Some (GetProcAddress p m symbol),
                appended (probes symbol
                  (takeWhile (\<lambda>m. GetProcAddress p m symbol = 0) (drop i (take n modules)) @ [m])) s))"
proof (induction p modules symbol n i s rule: LookupSymbolInProcess_loop.induct)
  case (1 p modules symbol n i s)
  show ?case
  proof (cases "i < n")
    case False
    with "1.prems" have "i = n" by simp
    with "1.prems" show ?thesis
      by (simp add: LookupSymbolInProcess_loop.simps [of p modules symbol n n] appended_def probes_def)
  next
    case True
    with "1.prems" have inb: "i < 1024" "i < length modules" by simp_all
    from True "1.prems" have dr: "drop i (take n modules) = modules ! i # drop (i + 1) (take n modules)"
      using Cons_nth_drop_Suc [of i "take n modules"] by simp
    show ?thesis
    proof (cases "GetProcAddress p (modules ! i) symbol = 0")
      case hit: False
      with True inb dr show ?thesis
        by (simp add: LookupSymbolInProcess_loop.simps [of p modules symbol n i] appended_def probes_def call_def)
    next
      case miss: True
      have "LookupSymbolInProcess_loop p modules symbol n i s =
            LookupSymbolInProcess_loop p modules symbol n (i + 1)
              (call (Call_GetProcAddress (modules ! i) symbol) s)"
        using True inb miss by (simp add: LookupSymbolInProcess_loop.simps [of p modules symbol n i])
      also have "\<dots> = (case find (\<lambda>m. GetProcAddress p m symbol \<noteq> 0) (drop (i + 1) (take n modules)) of
        None \<Rightarrow> Some (None, appended (probes symbol (drop (i + 1) (take n modules))) (call (Call_GetProcAddress (modules ! i) symbol) s))
      | Some m \<Rightarrow>
          Some (Some (GetProcAddress p m symbol),
                appended (probes symbol
                  (takeWhile (\<lambda>m. GetProcAddress p m symbol = 0) (drop (i + 1) (take n modules)) @ [m])) (call (Call_GetProcAddress (modules ! i) symbol) s)))"
        using "1.IH" [OF True _ _] miss True inb "1.prems" by simp
      finally show ?thesis
        using miss dr by (simp add: appended_def probes_def call_def split: option.splits)
    qed
  qed
qed

lemma loop_frame:
  "LookupSymbolInProcess_loop p modules symbol n i s = Some (r, s') \<Longrightarrow>
   co_task_mem_allocated s' = co_task_mem_allocated s \<and> live_errors s' = live_errors s \<and>
   (\<exists>ms. calls s' = calls s @ probes symbol ms) \<and> (\<forall>x. r = Some x \<longrightarrow> x \<noteq> 0)"
proof (induction p modules symbol n i s rule: LookupSymbolInProcess_loop.induct)
  case (1 p modules symbol n i s)
  show ?case
  proof (cases "i < n")
    case False
    with "1.prems" show ?thesis
      by (simp add: LookupSymbolInProcess_loop.simps [of p modules symbol n i] probes_def)
  next
    case True
    note lt = this
    show ?thesis
    proof (cases "i < 1024 \<and> i < length modules")
      case False
      with lt "1.prems" show ?thesis
        by (simp add: LookupSymbolInProcess_loop.simps [of p modules symbol n i])
    next
      case inb: True
      show ?thesis
      proof (cases "GetProcAddress p (modules ! i) symbol = 0")
        case False
        with lt inb "1.prems" have "r = Some (GetProcAddress p (modules ! i) symbol)"
          "s' = call (Call_GetProcAddress (modules ! i) symbol) s"
          by (simp_all add: LookupSymbolInProcess_loop.simps [of p modules symbol n i])
        with False show ?thesis
          by (auto simp: probes_def intro: exI [of _ "[modules ! i]"])
      next
        case miss: True
        with lt inb "1.prems" have
          "LookupSymbolInProcess_loop p modules symbol n (i + 1)
              (call (Call_GetProcAddress (modules ! i) symbol) s) = Some (r, s')"
          by (simp add: LookupSymbolInProcess_loop.simps [of p modules symbol n i])
        moreover have "\<not> GetProcAddress p (modules ! i) symbol \<noteq> 0" using miss by simp
        ultimately have "co_task_mem_allocated s' =
            co_task_mem_allocated (call (Call_GetProcAddress (modules ! i) symbol) s) \<and>
          live_errors s' = live_errors (call (Call_GetProcAddress (modules ! i) symbol) s) \<and>
          (\<exists>ms. calls s' = calls (call (Call_GetProcAddress (modules ! i) symbol) s) @ probes symbol ms) \<and>
          (\<forall>x. r = Some x \<longrightarrow> x \<noteq> 0)"
          using "1.IH" [OF lt inb] by blast
        then show ?thesis
          by (auto simp: probes_def intro: exI [of _ "modules ! i # ms" for ms])
      qed
    qed
  qed
qed

lemma new_calls_append [simp]: "calls s' = calls s @ cs \<Longrightarrow> new_calls s s' = cs"
  by (simp add: new_calls_def)

lemma scan_open_failed:
  assumes "OpenProcess p = 0"
  shows "\<exists>s'. LookupSymbolInProcess p symbol s = Some ((0, Some ''Failed to open current process.''), s')
     \<and> calls s' = calls s @ force_load_calls p s @ [Call_OpenProcess]
     \<and> live_errors s' = ''Failed to open current process.'' # live_errors s
     \<and> co_task_mem_allocated s' = forced p s"
  using assms
  by (simp add: LookupSymbolInProcess_def Let_def OS_SCreate_def force_load_calls_def forced_def)

lemma scan_enum_failed:
  assumes "OpenProcess p \<noteq> 0"
    and "EnumProcessModules p (OpenProcess p) (1024 * sizeof_HMODULE p) = (False, modules, cb_needed)"
  shows "\<exists>s'. LookupSymbolInProcess p symbol s = Some ((0, Some (not_found_message symbol)), s')
     \<and> calls s' = calls s @ force_load_calls p s
          @ [Call_OpenProcess, Call_EnumProcessModules (OpenProcess p), Call_CloseHandle (OpenProcess p)]
     \<and> live_errors s' = not_found_message symbol # live_errors s
     \<and> co_task_mem_allocated s' = forced p s"
  using assms
  by (simp add: LookupSymbolInProcess_def Let_def OS_SCreate_def force_load_calls_def forced_def not_found_message_def)

lemma scan_in_bounds:
  assumes "OpenProcess p \<noteq> 0"
    and "EnumProcessModules p (OpenProcess p) (1024 * sizeof_HMODULE p) = (True, modules, cb_needed)"
    and "unat cb_needed div sizeof_HMODULE p \<le> length modules"
    and "unat cb_needed div sizeof_HMODULE p \<le> 1024"
  shows "\<exists>s'. LookupSymbolInProcess p symbol s =
        Some ((case find (\<lambda>m. GetProcAddress p m symbol \<noteq> 0)
                      (take (unat cb_needed div sizeof_HMODULE p) modules) of
                 Some m \<Rightarrow> (GetProcAddress p m symbol, None)
               | None \<Rightarrow> (0, Some (not_found_message symbol))), s')
     \<and> calls s' = calls s @ force_load_calls p s
          @ [Call_OpenProcess, Call_EnumProcessModules (OpenProcess p)]
          @ probes symbol
              (case find (\<lambda>m. GetProcAddress p m symbol \<noteq> 0)
                      (take (unat cb_needed div sizeof_HMODULE p) modules) of
                 Some m \<Rightarrow> takeWhile (\<lambda>m. GetProcAddress p m symbol = 0)
                             (take (unat cb_needed div sizeof_HMODULE p) modules) @ [m]
               | None \<Rightarrow> take (unat cb_needed div sizeof_HMODULE p) modules)
          @ [Call_CloseHandle (OpenProcess p)]
     \<and> live_errors s' =
          (case find (\<lambda>m. GetProcAddress p m symbol \<noteq> 0)
                      (take (unat cb_needed div sizeof_HMODULE p) modules) of
             Some m \<Rightarrow> live_errors s
           | None \<Rightarrow> not_found_message symbol # live_errors s)
     \<and> co_task_mem_allocated s' = forced p s"
  using assms
  by (simp add: LookupSymbolInProcess_def Let_def OS_SCreate_def force_load_calls_def forced_def
      not_found_message_def loop_in_bounds split: option.splits)

lemma scan_frame:
  assumes "LookupSymbolInProcess p symbol s = Some ((ptr, error), s')"
  shows "co_task_mem_allocated s' = forced p s
     \<and> (\<exists>ms. calls s' = calls s @ force_load_calls p s @ [Call_OpenProcess]
              \<or> calls s' = calls s @ force_load_calls p s
                   @ [Call_OpenProcess, Call_EnumProcessModules (OpenProcess p)]
                   @ probes symbol ms @ [Call_CloseHandle (OpenProcess p)])
     \<and> (ptr \<noteq> 0 \<and> error = None \<and> live_errors s' = live_errors s
          \<or> ptr = 0 \<and> (\<exists>m. error = Some m \<and> live_errors s' = m # live_errors s))"
proof (cases "OpenProcess p = 0")
  case True
  from scan_open_failed [OF True, of symbol s] assms show ?thesis by auto
next
  case False
  obtain ok modules cb_needed where
    e: "EnumProcessModules p (OpenProcess p) (1024 * sizeof_HMODULE p) = (ok, modules, cb_needed)"
    by (cases "EnumProcessModules p (OpenProcess p) (1024 * sizeof_HMODULE p)")
  show ?thesis
  proof (cases ok)
    case False
    with e have "EnumProcessModules p (OpenProcess p) (1024 * sizeof_HMODULE p) = (False, modules, cb_needed)" by simp
    from scan_enum_failed [OF \<open>OpenProcess p \<noteq> 0\<close> this, of symbol s] assms show ?thesis
      by (auto simp: probes_def intro: exI [of _ "[]"])
  next
    case True
    define s3 where "s3 = call (Call_EnumProcessModules (OpenProcess p))
       (call Call_OpenProcess (if co_task_mem_allocated s = 0
                then call (Call_CoTaskMemFree (CoTaskMemAlloc p))
                       (call Call_CoTaskMemAlloc
                          (s\<lparr>co_task_mem_allocated := CoTaskMemAlloc p\<rparr>))
                else s))"
    have s3: "co_task_mem_allocated s3 = forced p s" "live_errors s3 = live_errors s"
      "calls s3 = calls s @ force_load_calls p s @ [Call_OpenProcess, Call_EnumProcessModules (OpenProcess p)]"
      by (simp_all add: s3_def forced_def force_load_calls_def)
    from assms e True \<open>OpenProcess p \<noteq> 0\<close> obtain r s4 where
      l: "LookupSymbolInProcess_loop p modules symbol (unat cb_needed div sizeof_HMODULE p) 0 s3 = Some (r, s4)"
      and r: "(case r of Some result \<Rightarrow> ptr = result \<and> error = None \<and> s' = call (Call_CloseHandle (OpenProcess p)) s4
                | None \<Rightarrow> ptr = 0 \<and> error = Some (not_found_message symbol) \<and>
                   s' = owned (not_found_message symbol) (call (Call_CloseHandle (OpenProcess p)) s4))"
      by (auto simp: LookupSymbolInProcess_def Let_def OS_SCreate_def s3_def not_found_message_def
          split: option.splits prod.splits)
    from loop_frame [OF l] obtain ms where
      f: "co_task_mem_allocated s4 = co_task_mem_allocated s3" "live_errors s4 = live_errors s3"
         "calls s4 = calls s3 @ probes symbol ms" "\<forall>x. r = Some x \<longrightarrow> x \<noteq> 0"
      by blast
    show ?thesis
    proof (cases r)
      case None
      with r f s3 show ?thesis by auto
    next
      case (Some x)
      with r f s3 show ?thesis by auto
    qed
  qed
qed

lemma scan_returns:
  assumes "snapshot_in_bounds p"
  shows "\<exists>r s'. LookupSymbolInProcess p symbol s = Some (r, s')"
proof (cases "OpenProcess p = 0")
  case True
  from scan_open_failed [OF True, of symbol s] show ?thesis by blast
next
  case False
  obtain ok modules cb_needed where
    e: "EnumProcessModules p (OpenProcess p) (1024 * sizeof_HMODULE p) = (ok, modules, cb_needed)"
    by (cases "EnumProcessModules p (OpenProcess p) (1024 * sizeof_HMODULE p)")
  show ?thesis
  proof (cases ok)
    case False
    with e have "EnumProcessModules p (OpenProcess p) (1024 * sizeof_HMODULE p) = (False, modules, cb_needed)"
      by simp
    from scan_enum_failed [OF \<open>OpenProcess p \<noteq> 0\<close> this, of symbol s] show ?thesis by blast
  next
    case True
    with e assms have "unat cb_needed div sizeof_HMODULE p \<le> length modules"
      "unat cb_needed div sizeof_HMODULE p \<le> 1024"
      by (simp_all add: snapshot_in_bounds_def)
    moreover from e True have "EnumProcessModules p (OpenProcess p) (1024 * sizeof_HMODULE p) = (True, modules, cb_needed)"
      by simp
    ultimately show ?thesis
      using scan_in_bounds [OF \<open>OpenProcess p \<noteq> 0\<close>, of modules cb_needed symbol s] by blast
  qed
qed

text \<open>
  When the enumeration reports more entries than it stored or than the array holds, and
  none of the entries in the array has the symbol, the loop reads past them.
\<close>

lemma loop_overrun:
  assumes "m = min (length modules) 1024" and "m < n" and "i \<le> m"
    and "\<forall>j. i \<le> j \<and> j < m \<longrightarrow> GetProcAddress p (modules ! j) symbol = 0"
  shows "LookupSymbolInProcess_loop p modules symbol n i s = None"
  using assms(3,4)
proof (induction "m - i" arbitrary: i s)
  case 0
  with assms(1,2) have "i < n" "\<not> (i < 1024 \<and> i < length modules)" by auto
  then show ?case
    by (auto simp: LookupSymbolInProcess_loop.simps [of p modules symbol n i])
next
  case (Suc k)
  then have lt: "i < m" by simp
  with assms(1,2) have "i < n" "i < 1024 \<and> i < length modules" by auto
  moreover from Suc.prems lt have "GetProcAddress p (modules ! i) symbol = 0" by simp
  moreover have "LookupSymbolInProcess_loop p modules symbol n (i + 1)
      (call (Call_GetProcAddress (modules ! i) symbol) s) = None"
    using Suc.hyps(2) Suc.prems lt by (intro Suc.hyps(1)) auto
  ultimately show ?case
    by (simp add: LookupSymbolInProcess_loop.simps [of p modules symbol n i])
qed

lemma scan_overrun:
  assumes "OpenProcess p \<noteq> 0"
    and "EnumProcessModules p (OpenProcess p) (1024 * sizeof_HMODULE p) = (True, modules, cb_needed)"
    and "min (length modules) 1024 < unat cb_needed div sizeof_HMODULE p"
    and "list_all (\<lambda>m. GetProcAddress p m symbol = 0) (take 1024 modules)"
  shows "LookupSymbolInProcess p symbol s = None"
proof -
  have "\<forall>j. 0 \<le> j \<and> j < min (length modules) 1024 \<longrightarrow> GetProcAddress p (modules ! j) symbol = 0"
  proof (intro allI impI)
    fix j assume "0 \<le> j \<and> j < min (length modules) 1024"
    then have "j < length (take 1024 modules)" by simp
    with assms(4) have "GetProcAddress p (take 1024 modules ! j) symbol = 0"
      by (simp add: list_all_length)
    with \<open>0 \<le> j \<and> j < min (length modules) 1024\<close> show "GetProcAddress p (modules ! j) symbol = 0"
      by simp
  qed
  from loop_overrun [OF refl assms(3) _ this]
  have "\<And>s. LookupSymbolInProcess_loop p modules symbol
          (unat cb_needed div sizeof_HMODULE p) 0 s = None"
    by simp
  with assms(1,2) show ?thesis
    by (simp add: LookupSymbolInProcess_def Let_def)
qed

lemma sublist_mid: "sublist x (a @ x @ b)"
  by (auto simp: sublist_def)

lemma sublist_mid2: "sublist x (a @ b @ x @ c)"
  using sublist_mid [of x "a @ b" c] by simp

lemma sublist_last5: "sublist x (a @ b @ c @ d @ e @ x)"
  using sublist_mid [of x "a @ b @ c @ d @ e" "[]"] by simp

lemma appended_eq_call: "appended [c] s = call c s"
  by (simp add: appended_def call_def)

lemma free_owned [simp]: "free m (owned m s) = s"
  by (simp add: free_def owned_def)

section \<open>The resolver of FFI natives\<close>

text \<open>
  C1. When the asset has a registered native resolver, \<^verbatim>\<open>FfiResolve\<close> calls that resolver
  with the symbol and the declared argument count, and makes no other call: no lookup
  in the process, whatever such a lookup would find. It returns exactly the pointer of
  the resolver when that is not null; when it is null it throws an \<^verbatim>\<open>ArgumentError\<close>
  whose text contains the symbol and the asset, and the message it allocated is freed.
\<close>

theorem FfiResolve_registered_resolver:
  assumes "GetFfiNativeResolver p asset = Some resolver"
  shows "FfiResolve p asset symbol args_n s =
           Some (if resolver symbol args_n \<noteq> 0
                 then Inr (resolver symbol args_n)
                 else Inl (ArgumentError (resolver_failed_message symbol asset)),
                 appended [Call_resolver symbol args_n] s)
         \<and> sublist symbol (resolver_failed_message symbol asset)
         \<and> sublist asset (resolver_failed_message symbol asset)"
proof -
  have "FfiResolve p asset symbol args_n s =
           Some (if resolver symbol args_n \<noteq> 0
                 then Inr (resolver symbol args_n)
                 else Inl (ArgumentError (resolver_failed_message symbol asset)),
                 appended [Call_resolver symbol args_n] s)"
    using assms
    by (simp add: FfiResolve_def FfiResolveWithFfiNativeResolver_def ThrowFfiResolveError_def
        OS_SCreate_def Let_def resolver_failed_message_def appended_eq_call)
  moreover have "sublist symbol (resolver_failed_message symbol asset)"
    unfolding resolver_failed_message_def by (rule sublist_mid2)
  moreover have "sublist asset (resolver_failed_message symbol asset)"
    unfolding resolver_failed_message_def
    using sublist_mid [of asset "''Couldn't resolve native function '' @ apostrophe @ symbol @ apostrophe
       @ '' in '' @ apostrophe"] by simp
  ultimately show ?thesis by blast
qed

text \<open>
  On the Linux platform \<^verbatim>\<open>my_asset\<close> has a resolver that knows \<^verbatim>\<open>add_ints\<close> only, and
  the process has \<^verbatim>\<open>puts\<close>: \<^verbatim>\<open>add_ints\<close> resolves to the pointer of the resolver, and
  \<^verbatim>\<open>puts\<close> fails although the lookup in the process would find it.
\<close>

theorem FfiResolve_registered_resolver_witness:
  "GetFfiNativeResolver linux_host ''my_asset'' = Some asset_resolver
   \<and> FfiResolve linux_host ''my_asset'' ''add_ints'' 2 initial_state =
       Some (Inr 0x2000, appended [Call_resolver ''add_ints'' 2] initial_state)
   \<and> Utils_ResolveSymbolInDynamicLibrary linux_host (RTLD_DEFAULT linux_host) ''puts''
       = (0x1000, None)
   \<and> FfiResolve linux_host ''my_asset'' ''puts'' 1 initial_state =
       Some (Inl (ArgumentError (resolver_failed_message ''puts'' ''my_asset'')),
             appended [Call_resolver ''puts'' 1] initial_state)
   \<and> sublist ''puts'' (resolver_failed_message ''puts'' ''my_asset'')
   \<and> sublist ''my_asset'' (resolver_failed_message ''puts'' ''my_asset'')"
proof -
  have h: "GetFfiNativeResolver linux_host ''my_asset'' = Some asset_resolver"
    by (simp add: GetFfiNativeResolver_def linux_host_def asset_table_def)
  have u: "Utils_ResolveSymbolInDynamicLibrary linux_host (RTLD_DEFAULT linux_host) ''puts''
       = (0x1000, None)"
    by (simp add: linux_host_def)
  from h u FfiResolve_registered_resolver [OF h, of "''add_ints''" 2 initial_state]
    FfiResolve_registered_resolver [OF h, of "''puts''" 1 initial_state]
  show ?thesis
    by (simp add: asset_resolver_def)
qed

text \<open>
  C2. When the asset has no registered native resolver, \<^verbatim>\<open>FfiResolve\<close> behaves as
  \<^verbatim>\<open>ResolveSymbol\<close> on the handle of the process library: it is undefined exactly when
  that is, returns the same pointer and leaves the same state when that leaves the error
  cell null, and throws (after freeing the message) exactly when that sets the error.
  So it returns the pointer that the native \<^verbatim>\<open>Ffi_dl_lookup\<close> returns on the process
  library, and throws exactly when that native throws, from the same final state.
\<close>

theorem FfiResolve_unregistered:
  assumes "GetFfiNativeResolver p asset = None"
  shows "FfiResolve p asset symbol args_n s =
     (case ResolveSymbol p (GetHandle (Ffi_dl_processLibrary p)) symbol s of
        None \<Rightarrow> None
      | Some ((pointer, None), s1) \<Rightarrow> Some (Inr pointer, s1)
      | Some ((pointer, Some e), s1) \<Rightarrow>
          Some (Inl (fst (ThrowFfiResolveError symbol asset e s1)), free e s1))
   \<and> (case Ffi_dl_lookup p (Ffi_dl_processLibrary p) symbol s of
        None \<Rightarrow> FfiResolve p asset symbol args_n s = None
      | Some (Inr pointer, s1) \<Rightarrow> FfiResolve p asset symbol args_n s = Some (Inr pointer, s1)
      | Some (Inl exn, s1) \<Rightarrow>
          (\<exists>exn'. FfiResolve p asset symbol args_n s = Some (Inl exn', s1)))"
proof -
  have main: "FfiResolve p asset symbol args_n s =
     (case ResolveSymbol p (GetHandle (Ffi_dl_processLibrary p)) symbol s of
        None \<Rightarrow> None
      | Some ((pointer, None), s1) \<Rightarrow> Some (Inr pointer, s1)
      | Some ((pointer, Some e), s1) \<Rightarrow>
          Some (Inl (fst (ThrowFfiResolveError symbol asset e s1)), free e s1))"
  proof (cases "host p = Windows")
    case True
    then show ?thesis
      using assms
      by (simp add: FfiResolve_def ResolveSymbol_def Ffi_dl_processLibrary_def
          ThrowFfiResolveError_def Let_def split: option.splits prod.splits)
  next
    case False
    then have "host p = Linux \<or> host p = MacOS \<or> host p = Android \<or> host p = Fuchsia"
      by (cases "host p") simp_all
    with False show ?thesis
      using assms
      by (simp add: FfiResolve_def ResolveSymbol_def Ffi_dl_processLibrary_def
          ThrowFfiResolveError_def Let_def split: option.splits prod.splits)
  qed
  have "case Ffi_dl_lookup p (Ffi_dl_processLibrary p) symbol s of
        None \<Rightarrow> FfiResolve p asset symbol args_n s = None
      | Some (Inr pointer, s1) \<Rightarrow> FfiResolve p asset symbol args_n s = Some (Inr pointer, s1)
      | Some (Inl exn, s1) \<Rightarrow>
          (\<exists>exn'. FfiResolve p asset symbol args_n s = Some (Inl exn', s1))"
    unfolding main Ffi_dl_lookup_def
    by (simp split: option.splits prod.splits sum.splits)
  with main show ?thesis by blast
qed

text \<open>
  \<^verbatim>\<open>other_asset\<close> is no library and \<^verbatim>\<open>plain_asset\<close> is a library without a resolver. On
  the Linux platform \<^verbatim>\<open>puts\<close> resolves to the pointer of the process-wide lookup, and
  \<^verbatim>\<open>missing_fn\<close> throws where the lookup sets its error.
\<close>

theorem FfiResolve_unregistered_witness:
  "GetFfiNativeResolver linux_host ''other_asset'' = None
   \<and> ResolveSymbol linux_host (GetHandle (Ffi_dl_processLibrary linux_host)) ''puts'' initial_state
       = Some ((0x1000, None),
               appended [Call_Utils_ResolveSymbolInDynamicLibrary 0 ''puts''] initial_state)
   \<and> FfiResolve linux_host ''other_asset'' ''puts'' 1 initial_state
       = Some (Inr 0x1000,
               appended [Call_Utils_ResolveSymbolInDynamicLibrary 0 ''puts''] initial_state)
   \<and> GetFfiNativeResolver linux_host ''plain_asset'' = None
   \<and> map_option fst (ResolveSymbol linux_host (GetHandle (Ffi_dl_processLibrary linux_host))
                         ''missing_fn'' initial_state)
       = Some (0, Some ''undefined symbol'')
   \<and> map_option fst (FfiResolve linux_host ''plain_asset'' ''missing_fn'' 0 initial_state)
       = Some (Inl (fst (ThrowFfiResolveError ''missing_fn'' ''plain_asset'' ''undefined symbol''
                           initial_state)))"
proof -
  have h: "GetFfiNativeResolver linux_host ''other_asset'' = None"
    by (simp add: GetFfiNativeResolver_def linux_host_def asset_table_def)
  have k: "GetFfiNativeResolver linux_host ''plain_asset'' = None"
    by (simp add: GetFfiNativeResolver_def linux_host_def asset_table_def)
  have r: "ResolveSymbol linux_host (GetHandle (Ffi_dl_processLibrary linux_host)) ''puts'' initial_state
       = Some ((0x1000, None),
               appended [Call_Utils_ResolveSymbolInDynamicLibrary 0 ''puts''] initial_state)"
    by (simp add: ResolveSymbol_def Ffi_dl_processLibrary_def ResolveSymbolInDynamicLibrary_def
        linux_host_def own_error_def appended_eq_call)
  have m: "ResolveSymbol linux_host (GetHandle (Ffi_dl_processLibrary linux_host)) ''missing_fn''
             initial_state
       = Some ((0, Some ''undefined symbol''),
               owned ''undefined symbol''
                 (call (Call_Utils_ResolveSymbolInDynamicLibrary 0 ''missing_fn'') initial_state))"
    by (simp add: ResolveSymbol_def Ffi_dl_processLibrary_def ResolveSymbolInDynamicLibrary_def
        linux_host_def own_error_def)
  from h k r m FfiResolve_unregistered [OF h, of "''puts''" 1 initial_state]
    FfiResolve_unregistered [OF k, of "''missing_fn''" 0 initial_state]
  show ?thesis
    by (simp add: ThrowFfiResolveError_def)
qed

section \<open>The scan on the concrete Windows platform\<close>

lemma windows_scan_puts:
  "LookupSymbolInProcess windows_host ''puts'' initial_state =
     Some ((0x20040, None),
           \<lparr>co_task_mem_allocated = 0x500, live_errors = [],
            calls = [Call_CoTaskMemAlloc, Call_CoTaskMemFree 0x500, Call_OpenProcess,
                     Call_EnumProcessModules 0x44, Call_GetProcAddress 0x10000 ''puts'',
                     Call_GetProcAddress 0x20000 ''puts'', Call_CloseHandle 0x44]\<rparr>)"
  by (simp add: LookupSymbolInProcess_def Let_def windows_host_def initial_state_def
      LookupSymbolInProcess_loop.simps call_def sizeof_HMODULE_def)

lemma windows_scan_missing:
  "LookupSymbolInProcess windows_host ''missing_fn'' initial_state =
     Some ((0, Some (not_found_message ''missing_fn'')),
           \<lparr>co_task_mem_allocated = 0x500, live_errors = [not_found_message ''missing_fn''],
            calls = [Call_CoTaskMemAlloc, Call_CoTaskMemFree 0x500, Call_OpenProcess,
                     Call_EnumProcessModules 0x44, Call_GetProcAddress 0x10000 ''missing_fn'',
                     Call_GetProcAddress 0x20000 ''missing_fn'',
                     Call_GetProcAddress 0x30000 ''missing_fn'', Call_CloseHandle 0x44]\<rparr>)"
  by (simp add: LookupSymbolInProcess_def Let_def windows_host_def initial_state_def
      LookupSymbolInProcess_loop.simps call_def sizeof_HMODULE_def OS_SCreate_def owned_def
      not_found_message_def)

lemma windows_in_bounds: "snapshot_in_bounds windows_host"
  by (simp add: snapshot_in_bounds_def windows_host_def sizeof_HMODULE_def)

section \<open>The symbol resolver\<close>

text \<open>
  C3, as the file has it. \<^verbatim>\<open>SymbolExists\<close> is undefined exactly when \<^verbatim>\<open>ResolveSymbol\<close>
  is; otherwise it returns true if and only if \<^verbatim>\<open>ResolveSymbol\<close> leaves the error cell
  null (line 149 tests the error cell only, as \<^verbatim>\<open>Ffi_dl_lookup\<close> does at line 192), makes
  the same calls, and frees the message that the lookup produced: the owned messages are
  afterwards what they were before, in either outcome. For the scan of the process a
  null error cell is the same as a non-null pointer. For every other handle
  \<^verbatim>\<open>ResolveSymbol\<close> returns the pointer and the error cell of
  \<^verbatim>\<open>Utils::ResolveSymbolInDynamicLibrary\<close> as they are, so \<^verbatim>\<open>SymbolExists\<close> is true with a
  null pointer exactly where that lookup returns null and stores no message. For the
  natives: \<^verbatim>\<open>Ffi_dl_providesSymbol\<close> is true exactly when \<^verbatim>\<open>Ffi_dl_lookup\<close> returns a
  pointer and false exactly when it throws, and both end in the same state, with no
  message owned.
\<close>

theorem SymbolExists_iff_no_error:
  "(case ResolveSymbol p handle symbol s of
      None \<Rightarrow> SymbolExists p handle symbol s = None
    | Some ((pointer, error), s1) \<Rightarrow>
        (\<exists>s2. SymbolExists p handle symbol s = Some (error = None, s2)
             \<and> live_errors s1 = (case error of None \<Rightarrow> live_errors s | Some e \<Rightarrow> e # live_errors s)
             \<and> live_errors s2 = live_errors s
             \<and> calls s2 = calls s1
             \<and> co_task_mem_allocated s2 = co_task_mem_allocated s1)
        \<and> (host p = Windows \<and> handle = 0 \<longrightarrow> (error = None) = (pointer \<noteq> 0))
        \<and> (\<not> (host p = Windows \<and> handle = 0) \<longrightarrow>
             (pointer, error) = Utils_ResolveSymbolInDynamicLibrary p handle symbol))
   \<and> (case Ffi_dl_lookup p (DynamicLibrary_New handle) symbol s of
        None \<Rightarrow> Ffi_dl_providesSymbol p (DynamicLibrary_New handle) symbol s = None
      | Some (r, s1) \<Rightarrow>
          Ffi_dl_providesSymbol p (DynamicLibrary_New handle) symbol s
            = Some (case r of Inl exn \<Rightarrow> False | Inr pointer \<Rightarrow> True, s1)
          \<and> live_errors s1 = live_errors s)"
proof -
  have main: "case ResolveSymbol p handle symbol s of
      None \<Rightarrow> SymbolExists p handle symbol s = None
    | Some ((pointer, error), s1) \<Rightarrow>
        (\<exists>s2. SymbolExists p handle symbol s = Some (error = None, s2)
             \<and> live_errors s1 = (case error of None \<Rightarrow> live_errors s | Some e \<Rightarrow> e # live_errors s)
             \<and> live_errors s2 = live_errors s
             \<and> calls s2 = calls s1
             \<and> co_task_mem_allocated s2 = co_task_mem_allocated s1)
        \<and> (host p = Windows \<and> handle = 0 \<longrightarrow> (error = None) = (pointer \<noteq> 0))
        \<and> (\<not> (host p = Windows \<and> handle = 0) \<longrightarrow>
             (pointer, error) = Utils_ResolveSymbolInDynamicLibrary p handle symbol)"
  proof (cases "host p = Windows \<and> handle = 0")
    case True
    show ?thesis
    proof (cases "LookupSymbolInProcess p symbol s")
      case None
      with True show ?thesis
        by (simp add: ResolveSymbol_def SymbolExists_def kWindowsDynamicLibraryProcessPtr_def)
    next
      case (Some a)
      then obtain pointer error s1 where
        a: "LookupSymbolInProcess p symbol s = Some ((pointer, error), s1)"
        by (cases a) auto
      from scan_frame [OF a] a True show ?thesis
        by (auto simp: ResolveSymbol_def SymbolExists_def kWindowsDynamicLibraryProcessPtr_def)
    qed
  next
    case False
    obtain pointer error where
      u: "Utils_ResolveSymbolInDynamicLibrary p handle symbol = (pointer, error)"
      by (cases "Utils_ResolveSymbolInDynamicLibrary p handle symbol")
    from False u show ?thesis
      by (cases error)
        (auto simp: ResolveSymbol_def SymbolExists_def kWindowsDynamicLibraryProcessPtr_def
          ResolveSymbolInDynamicLibrary_def reports_failure_def owned_def free_def own_error_def)
  qed
  have exists: "SymbolExists p handle symbol s =
      (case ResolveSymbol p handle symbol s of
         None \<Rightarrow> None
       | Some ((pointer, error), s1) \<Rightarrow>
           (case error of Some e \<Rightarrow> Some (False, free e s1) | None \<Rightarrow> Some (True, s1)))"
    by (simp add: SymbolExists_def ResolveSymbol_def kWindowsDynamicLibraryProcessPtr_def)
  have "case Ffi_dl_lookup p (DynamicLibrary_New handle) symbol s of
        None \<Rightarrow> Ffi_dl_providesSymbol p (DynamicLibrary_New handle) symbol s = None
      | Some (r, s1) \<Rightarrow>
          Ffi_dl_providesSymbol p (DynamicLibrary_New handle) symbol s
            = Some (case r of Inl exn \<Rightarrow> False | Inr pointer \<Rightarrow> True, s1)
          \<and> live_errors s1 = live_errors s"
  proof (cases "ResolveSymbol p handle symbol s")
    case None
    then show ?thesis
      by (simp add: Ffi_dl_providesSymbol_def Ffi_dl_lookup_def exists)
  next
    case (Some a)
    then obtain pointer error s1 where
      r: "ResolveSymbol p handle symbol s = Some ((pointer, error), s1)"
      by (cases a) auto
    with main have "live_errors s1 =
        (case error of None \<Rightarrow> live_errors s | Some e \<Rightarrow> e # live_errors s)"
      by auto
    with r show ?thesis
      by (cases error) (simp_all add: Ffi_dl_providesSymbol_def Ffi_dl_lookup_def exists)
  qed
  with main show ?thesis by blast
qed

text \<open>
  A symbol that a library has on the Linux platform, and a symbol that no module of the
  process has on the Windows platform, where the message of the scan is freed.
\<close>

theorem SymbolExists_iff_no_error_witness:
  "\<not> (host linux_host = Windows \<and> (0x7000 :: 64 word) = 0)
   \<and> map_option fst (ResolveSymbol linux_host 0x7000 ''add_ints'' initial_state)
       = Some (0x7100, None)
   \<and> Utils_ResolveSymbolInDynamicLibrary linux_host 0x7000 ''add_ints'' = (0x7100, None)
   \<and> map_option fst (SymbolExists linux_host 0x7000 ''add_ints'' initial_state) = Some True
   \<and> host windows_host = Windows
   \<and> map_option fst (ResolveSymbol windows_host 0 ''missing_fn'' initial_state)
       = Some (0, Some (not_found_message ''missing_fn''))
   \<and> (\<exists>s2. SymbolExists windows_host 0 ''missing_fn'' initial_state = Some (False, s2)
            \<and> live_errors s2 = live_errors initial_state)"
proof -
  have a: "ResolveSymbol linux_host 0x7000 ''add_ints'' initial_state
     = Some ((0x7100, None),
             call (Call_Utils_ResolveSymbolInDynamicLibrary 0x7000 ''add_ints'') initial_state)"
    by (simp add: ResolveSymbol_def ResolveSymbolInDynamicLibrary_def linux_host_def own_error_def)
  have b: "ResolveSymbol windows_host 0 ''missing_fn'' initial_state
     = LookupSymbolInProcess windows_host ''missing_fn'' initial_state"
    by (simp add: ResolveSymbol_def windows_host_def kWindowsDynamicLibraryProcessPtr_def)
  have c: "\<not> (host linux_host = Windows \<and> (0x7000 :: 64 word) = 0)"
    "host windows_host = Windows"
    by (simp_all add: linux_host_def windows_host_def)
  from SymbolExists_iff_no_error
    [where p = linux_host and handle = "0x7000" and symbol = "''add_ints''" and s = initial_state]
    a c(1)
  have 1: "map_option fst (SymbolExists linux_host 0x7000 ''add_ints'' initial_state) = Some True"
    "Utils_ResolveSymbolInDynamicLibrary linux_host 0x7000 ''add_ints'' = (0x7100, None)"
    by auto
  from SymbolExists_iff_no_error
    [where p = windows_host and handle = 0 and symbol = "''missing_fn''" and s = initial_state] b
    windows_scan_missing
  have 2: "\<exists>s2. SymbolExists windows_host 0 ''missing_fn'' initial_state = Some (False, s2)
            \<and> live_errors s2 = live_errors initial_state"
    by auto
  from a b c 1 2 windows_scan_missing show ?thesis by simp
qed

text \<open>
  C3, as the claim states it, fails where the lookup returns null and stores no message:
  \<^verbatim>\<open>ResolveSymbol\<close> returns the null pointer with a null error cell, which is not a
  non-null pointer, and \<^verbatim>\<open>SymbolExists\<close> returns true.
\<close>

theorem SymbolExists_true_on_null_pointer:
  "Utils_ResolveSymbolInDynamicLibrary null_symbol_host 0x7000 ''null_sym'' = (0, None)
   \<and> ResolveSymbol null_symbol_host 0x7000 ''null_sym'' initial_state
       = Some ((0, None),
               appended [Call_Utils_ResolveSymbolInDynamicLibrary 0x7000 ''null_sym''] initial_state)
   \<and> SymbolExists null_symbol_host 0x7000 ''null_sym'' initial_state
       = Some (True,
               appended [Call_Utils_ResolveSymbolInDynamicLibrary 0x7000 ''null_sym''] initial_state)"
  by (simp add: ResolveSymbol_def SymbolExists_def ResolveSymbolInDynamicLibrary_def
      null_symbol_host_def linux_host_def own_error_def appended_eq_call)

text \<open>
  C4. No load or resolution returns both a non-null pointer and an error.
  \<^verbatim>\<open>LookupSymbolInProcess\<close> never does, whatever the platform answers.
  \<^verbatim>\<open>LoadDynamicLibrary\<close> returns the handle of \<^verbatim>\<open>Utils::LoadDynamicLibrary\<close> and sets
  its error only when that call set one, and \<^verbatim>\<open>ResolveSymbol\<close> outside the scan returns
  what \<^verbatim>\<open>Utils::ResolveSymbolInDynamicLibrary\<close> returned: they never return both when
  the platform call they wrap does not. A load that the platform layer reports without
  error leaves the error cell null. The scan and \<^verbatim>\<open>ResolveSymbol\<close> return when the
  enumeration stays inside the array.
\<close>

theorem never_pointer_and_error:
  "(exclusive (Utils_LoadDynamicLibrary p library_file) \<longrightarrow>
      exclusive (fst (LoadDynamicLibrary p library_file error_given s)))
   \<and> (snd (Utils_LoadDynamicLibrary p library_file) = None \<longrightarrow>
        fst (LoadDynamicLibrary p library_file error_given s)
          = (fst (Utils_LoadDynamicLibrary p library_file), None))
   \<and> (exclusive (Utils_ResolveSymbolInDynamicLibrary p handle symbol) \<longrightarrow>
        (\<forall>r s'. ResolveSymbol p handle symbol s = Some (r, s') \<longrightarrow> exclusive r))
   \<and> (\<forall>r s'. LookupSymbolInProcess p symbol s = Some (r, s') \<longrightarrow> exclusive r)
   \<and> (snapshot_in_bounds p \<longrightarrow>
        (\<exists>r s'. LookupSymbolInProcess p symbol s = Some (r, s'))
        \<and> (\<exists>r s'. ResolveSymbol p handle symbol s = Some (r, s')))"
proof -
  have scan: "exclusive r" if "LookupSymbolInProcess p symbol s = Some (r, s')" for r s'
  proof -
    from that have "LookupSymbolInProcess p symbol s = Some ((fst r, snd r), s')" by simp
    from scan_frame [OF this] show ?thesis by (auto simp: exclusive_def)
  qed
  have load: "exclusive (fst (LoadDynamicLibrary p library_file error_given s))"
    if "exclusive (Utils_LoadDynamicLibrary p library_file)"
    using that
    by (cases "Utils_LoadDynamicLibrary p library_file")
      (auto simp: LoadDynamicLibrary_def exclusive_def OS_SCreate_def Let_def split: option.splits)
  have load_ok: "fst (LoadDynamicLibrary p library_file error_given s)
          = (fst (Utils_LoadDynamicLibrary p library_file), None)"
    if "snd (Utils_LoadDynamicLibrary p library_file) = None"
    using that
    by (cases "Utils_LoadDynamicLibrary p library_file")
      (auto simp: LoadDynamicLibrary_def Let_def)
  have res: "exclusive r"
    if "exclusive (Utils_ResolveSymbolInDynamicLibrary p handle symbol)"
      and "ResolveSymbol p handle symbol s = Some (r, s')" for r s'
    using that scan
    by (cases "Utils_ResolveSymbolInDynamicLibrary p handle symbol")
      (auto simp: ResolveSymbol_def ResolveSymbolInDynamicLibrary_def split: if_splits)
  have ret: "(\<exists>r s'. LookupSymbolInProcess p symbol s = Some (r, s'))
       \<and> (\<exists>r s'. ResolveSymbol p handle symbol s = Some (r, s'))"
    if "snapshot_in_bounds p"
  proof -
    from scan_returns [OF that, of symbol s] obtain r s' where
      l: "LookupSymbolInProcess p symbol s = Some (r, s')" by blast
    obtain r2 s2 where u: "ResolveSymbolInDynamicLibrary p handle symbol s = (r2, s2)"
      by (cases "ResolveSymbolInDynamicLibrary p handle symbol s")
    from l u have "\<exists>r s'. ResolveSymbol p handle symbol s = Some (r, s')"
      by (cases "host p = Windows \<and> handle = kWindowsDynamicLibraryProcessPtr")
        (simp_all add: ResolveSymbol_def)
    with l show ?thesis by blast
  qed
  from scan load load_ok res ret show ?thesis by blast
qed

theorem never_pointer_and_error_witness:
  "exclusive (Utils_LoadDynamicLibrary linux_host (Some ''libfoo.so''))
   \<and> exclusive (fst (LoadDynamicLibrary linux_host (Some ''libfoo.so'') True initial_state))
   \<and> snd (Utils_LoadDynamicLibrary linux_host (Some ''libfoo.so'')) = None
   \<and> fst (LoadDynamicLibrary linux_host (Some ''libfoo.so'') True initial_state) = (0x7000, None)
   \<and> exclusive (Utils_ResolveSymbolInDynamicLibrary linux_host 0x7000 ''missing_fn'')
   \<and> (\<exists>s'. ResolveSymbol linux_host 0x7000 ''missing_fn'' initial_state
              = Some ((0, Some ''undefined symbol''), s'))
   \<and> exclusive (0 :: 64 word, Some ''undefined symbol'')
   \<and> snapshot_in_bounds windows_host
   \<and> (\<exists>r s'. LookupSymbolInProcess windows_host ''puts'' initial_state = Some (r, s')
              \<and> exclusive r)"
proof -
  have a: "exclusive (Utils_LoadDynamicLibrary linux_host (Some ''libfoo.so''))"
    "snd (Utils_LoadDynamicLibrary linux_host (Some ''libfoo.so'')) = None"
    "fst (Utils_LoadDynamicLibrary linux_host (Some ''libfoo.so'')) = 0x7000"
    "exclusive (Utils_ResolveSymbolInDynamicLibrary linux_host 0x7000 ''missing_fn'')"
    by (simp_all add: exclusive_def linux_host_def)
  have b: "ResolveSymbol linux_host 0x7000 ''missing_fn'' initial_state
     = Some ((0, Some ''undefined symbol''),
             owned ''undefined symbol''
               (call (Call_Utils_ResolveSymbolInDynamicLibrary 0x7000 ''missing_fn'') initial_state))"
    by (simp add: ResolveSymbol_def ResolveSymbolInDynamicLibrary_def linux_host_def own_error_def)
  from never_pointer_and_error
    [where p = linux_host and library_file = "Some ''libfoo.so''" and error_given = True
       and s = initial_state and handle = "0x7000" and symbol = "''missing_fn''"] a b
  have 1: "exclusive (fst (LoadDynamicLibrary linux_host (Some ''libfoo.so'') True initial_state))"
    "fst (LoadDynamicLibrary linux_host (Some ''libfoo.so'') True initial_state) = (0x7000, None)"
    "exclusive (0 :: 64 word, Some ''undefined symbol'')"
    by (simp_all add: exclusive_def)
  from never_pointer_and_error
    [where p = windows_host and symbol = "''puts''" and s = initial_state] windows_in_bounds
  have 2: "\<exists>r s'. LookupSymbolInProcess windows_host ''puts'' initial_state = Some (r, s')
              \<and> exclusive r"
    by blast
  from a b 1 2 windows_in_bounds show ?thesis by simp
qed

text \<open>
  C5. On Windows, \<^verbatim>\<open>ResolveSymbol\<close> on the sentinel \<^verbatim>\<open>kWindowsDynamicLibraryProcessPtr\<close>,
  which is the handle of the process library, is the scan of the process, and makes no
  call of \<^verbatim>\<open>Utils::ResolveSymbolInDynamicLibrary\<close>; every other handle goes to that call.
  The sentinel is the null pointer: where the platform loader reports every null handle
  with a message, no library that \<^verbatim>\<open>Ffi_dl_open\<close> returns has the sentinel as its handle.
\<close>

theorem ResolveSymbol_process_sentinel:
  assumes "host p = Windows"
  shows "ResolveSymbol p kWindowsDynamicLibraryProcessPtr symbol s = LookupSymbolInProcess p symbol s
    \<and> GetHandle (Ffi_dl_processLibrary p) = kWindowsDynamicLibraryProcessPtr
    \<and> (\<forall>r s'. ResolveSymbol p kWindowsDynamicLibraryProcessPtr symbol s = Some (r, s') \<longrightarrow>
          (\<forall>h x. Call_Utils_ResolveSymbolInDynamicLibrary h x \<notin> set (new_calls s s')))
    \<and> (snapshot_in_bounds p \<longrightarrow>
          (\<exists>r s'. ResolveSymbol p kWindowsDynamicLibraryProcessPtr symbol s = Some (r, s')))
    \<and> (\<forall>handle. handle \<noteq> kWindowsDynamicLibraryProcessPtr \<longrightarrow>
          ResolveSymbol p handle symbol s = Some (ResolveSymbolInDynamicLibrary p handle symbol s))
    \<and> (\<forall>lib_path dlib s'.
          reports_failure (Utils_LoadDynamicLibrary p (Some lib_path)) \<and>
          Ffi_dl_open p lib_path s = (Inr dlib, s') \<longrightarrow>
          GetHandle dlib \<noteq> kWindowsDynamicLibraryProcessPtr)"
proof (intro conjI allI impI)
  show d: "ResolveSymbol p kWindowsDynamicLibraryProcessPtr symbol s = LookupSymbolInProcess p symbol s"
    using assms by (simp add: ResolveSymbol_def)
  show "GetHandle (Ffi_dl_processLibrary p) = kWindowsDynamicLibraryProcessPtr"
    using assms by (simp add: Ffi_dl_processLibrary_def)
  show "\<exists>r s'. ResolveSymbol p kWindowsDynamicLibraryProcessPtr symbol s = Some (r, s')"
    if "snapshot_in_bounds p"
    using scan_returns [OF that, of symbol s] d by simp
  show "ResolveSymbol p handle symbol s = Some (ResolveSymbolInDynamicLibrary p handle symbol s)"
    if "handle \<noteq> kWindowsDynamicLibraryProcessPtr" for handle
    using that by (simp add: ResolveSymbol_def)
next
  fix r s' h x
  assume "ResolveSymbol p kWindowsDynamicLibraryProcessPtr symbol s = Some (r, s')"
  with assms have "LookupSymbolInProcess p symbol s = Some ((fst r, snd r), s')"
    by (simp add: ResolveSymbol_def)
  from scan_frame [OF this] obtain ms where
    "calls s' = calls s @ force_load_calls p s @ [Call_OpenProcess]
              \<or> calls s' = calls s @ force_load_calls p s
                   @ [Call_OpenProcess, Call_EnumProcessModules (OpenProcess p)]
                   @ probes symbol ms @ [Call_CloseHandle (OpenProcess p)]"
    by blast
  then show "Call_Utils_ResolveSymbolInDynamicLibrary h x \<notin> set (new_calls s s')"
    by (auto simp: force_load_calls_def probes_def)
next
  fix lib_path dlib s'
  assume a: "reports_failure (Utils_LoadDynamicLibrary p (Some lib_path)) \<and>
          Ffi_dl_open p lib_path s = (Inr dlib, s')"
  then show "GetHandle dlib \<noteq> kWindowsDynamicLibraryProcessPtr"
    by (cases "Utils_LoadDynamicLibrary p (Some lib_path)")
      (auto simp: Ffi_dl_open_def LoadDynamicLibrary_def reports_failure_def Let_def OS_SCreate_def
        kWindowsDynamicLibraryProcessPtr_def split: option.splits prod.splits)
qed

theorem ResolveSymbol_process_sentinel_witness:
  "host windows_host = Windows
   \<and> ResolveSymbol windows_host kWindowsDynamicLibraryProcessPtr ''puts'' initial_state
       = LookupSymbolInProcess windows_host ''puts'' initial_state
   \<and> (\<exists>s'. ResolveSymbol windows_host kWindowsDynamicLibraryProcessPtr ''puts'' initial_state
              = Some ((0x20040, None), s')
            \<and> Call_Utils_ResolveSymbolInDynamicLibrary 0 ''puts'' \<notin> set (new_calls initial_state s'))
   \<and> snapshot_in_bounds windows_host
   \<and> ResolveSymbol windows_host 0x7000 ''add_ints'' initial_state
       = Some (ResolveSymbolInDynamicLibrary windows_host 0x7000 ''add_ints'' initial_state)
   \<and> reports_failure (Utils_LoadDynamicLibrary windows_host (Some ''foo.dll''))
   \<and> (\<exists>s'. Ffi_dl_open windows_host ''foo.dll'' initial_state
              = (Inr (DynamicLibrary_New 0x7000), s'))
   \<and> (0x7000 :: 64 word) \<noteq> kWindowsDynamicLibraryProcessPtr"
proof -
  have h: "host windows_host = Windows"
    by (simp add: windows_host_def)
  have r: "reports_failure (Utils_LoadDynamicLibrary windows_host (Some ''foo.dll''))"
    by (simp add: reports_failure_def windows_host_def)
  have n: "(0x7000 :: 64 word) \<noteq> kWindowsDynamicLibraryProcessPtr"
    by (simp add: kWindowsDynamicLibraryProcessPtr_def)
  have o: "\<exists>s'. Ffi_dl_open windows_host ''foo.dll'' initial_state
              = (Inr (DynamicLibrary_New 0x7000), s')"
    by (simp add: Ffi_dl_open_def LoadDynamicLibrary_def windows_host_def Let_def)
  note t = ResolveSymbol_process_sentinel [OF h, where symbol = "''puts''" and s = initial_state]
  from t windows_scan_puts
  have 1: "\<exists>s'. ResolveSymbol windows_host kWindowsDynamicLibraryProcessPtr ''puts'' initial_state
              = Some ((0x20040, None), s')
            \<and> Call_Utils_ResolveSymbolInDynamicLibrary 0 ''puts'' \<notin> set (new_calls initial_state s')"
    by auto
  from t n have 2: "ResolveSymbol windows_host 0x7000 ''add_ints'' initial_state
       = Some (ResolveSymbolInDynamicLibrary windows_host 0x7000 ''add_ints'' initial_state)"
    by (simp add: ResolveSymbol_def)
  from t h r n o 1 2 windows_in_bounds show ?thesis by simp
qed

section \<open>The scan of the process\<close>

text \<open>
  The scan within the array (the behaviour that C6 describes). When the process was
  opened and the enumeration succeeded within the array, the
  scan looks the symbol up in the enumerated modules in the order of the enumeration,
  one \<^verbatim>\<open>GetProcAddress\<close> per module up to and including the first module with a non-null
  result, and returns that result with no error. When no enumerated module has the
  symbol, every module was tried and the scan returns the null pointer with an error
  that contains the symbol and says that none of the loaded modules contained it.
\<close>

theorem LookupSymbolInProcess_first_hit:
  assumes "OpenProcess p \<noteq> 0"
    and "EnumProcessModules p (OpenProcess p) (1024 * sizeof_HMODULE p) = (True, modules, cb_needed)"
    and "unat cb_needed div sizeof_HMODULE p \<le> length modules"
    and "unat cb_needed div sizeof_HMODULE p \<le> 1024"
  shows "let snapshot = take (unat cb_needed div sizeof_HMODULE p) modules;
             hit = find (\<lambda>m. GetProcAddress p m symbol \<noteq> 0) snapshot
         in (\<exists>s'. LookupSymbolInProcess p symbol s =
                    Some ((case hit of
                             Some m \<Rightarrow> (GetProcAddress p m symbol, None)
                           | None \<Rightarrow> (0, Some (not_found_message symbol))), s')
                 \<and> new_calls s s' =
                      force_load_calls p s
                      @ [Call_OpenProcess, Call_EnumProcessModules (OpenProcess p)]
                      @ probes symbol
                          (case hit of
                             Some m \<Rightarrow> takeWhile (\<lambda>m. GetProcAddress p m symbol = 0) snapshot @ [m]
                           | None \<Rightarrow> snapshot)
                      @ [Call_CloseHandle (OpenProcess p)])
            \<and> (\<forall>m. hit = Some m \<longrightarrow>
                  (\<exists>i < length snapshot. snapshot ! i = m \<and> GetProcAddress p m symbol \<noteq> 0
                     \<and> (\<forall>j < i. GetProcAddress p (snapshot ! j) symbol = 0)))
            \<and> (hit = None \<longrightarrow> (\<forall>m \<in> set snapshot. GetProcAddress p m symbol = 0))
            \<and> sublist symbol (not_found_message symbol)
            \<and> sublist ''None of the loaded modules contained the requested symbol''
                 (not_found_message symbol)"
proof -
  define snapshot where "snapshot = take (unat cb_needed div sizeof_HMODULE p) modules"
  define hit where "hit = find (\<lambda>m. GetProcAddress p m symbol \<noteq> 0) snapshot"
  from scan_in_bounds [OF assms, of symbol s] obtain s' where
    "LookupSymbolInProcess p symbol s =
       Some ((case hit of Some m \<Rightarrow> (GetProcAddress p m symbol, None)
              | None \<Rightarrow> (0, Some (not_found_message symbol))), s')"
    "calls s' = calls s @ force_load_calls p s
          @ [Call_OpenProcess, Call_EnumProcessModules (OpenProcess p)]
          @ probes symbol
              (case hit of
                 Some m \<Rightarrow> takeWhile (\<lambda>m. GetProcAddress p m symbol = 0) snapshot @ [m]
               | None \<Rightarrow> snapshot)
          @ [Call_CloseHandle (OpenProcess p)]"
    unfolding snapshot_def hit_def by blast
  then have a: "\<exists>s'. LookupSymbolInProcess p symbol s =
                    Some ((case hit of
                             Some m \<Rightarrow> (GetProcAddress p m symbol, None)
                           | None \<Rightarrow> (0, Some (not_found_message symbol))), s')
                 \<and> new_calls s s' =
                      force_load_calls p s
                      @ [Call_OpenProcess, Call_EnumProcessModules (OpenProcess p)]
                      @ probes symbol
                          (case hit of
                             Some m \<Rightarrow> takeWhile (\<lambda>m. GetProcAddress p m symbol = 0) snapshot @ [m]
                           | None \<Rightarrow> snapshot)
                      @ [Call_CloseHandle (OpenProcess p)]"
    using new_calls_append by blast
  have b: "\<forall>m. hit = Some m \<longrightarrow>
                  (\<exists>i < length snapshot. snapshot ! i = m \<and> GetProcAddress p m symbol \<noteq> 0
                     \<and> (\<forall>j < i. GetProcAddress p (snapshot ! j) symbol = 0))"
    unfolding hit_def by (auto simp: find_Some_iff)
  have c: "hit = None \<longrightarrow> (\<forall>m \<in> set snapshot. GetProcAddress p m symbol = 0)"
    unfolding hit_def by (auto simp: find_None_iff)
  have d: "sublist symbol (not_found_message symbol)"
    unfolding not_found_message_def by (rule sublist_mid2)
  have e: "sublist ''None of the loaded modules contained the requested symbol''
                 (not_found_message symbol)"
    unfolding not_found_message_def by (auto simp: sublist_def intro: exI [of _ "[]"])
  from a b c d e show ?thesis
    unfolding Let_def snapshot_def [symmetric] hit_def [symmetric] by blast
qed

text \<open>
  The Windows platform enumerates three modules; the second and the third have \<^verbatim>\<open>puts\<close>:
  the scan returns the pointer of the second and does not try the third.
\<close>

theorem LookupSymbolInProcess_first_hit_witness:
  "OpenProcess windows_host \<noteq> 0
   \<and> EnumProcessModules windows_host (OpenProcess windows_host) (1024 * sizeof_HMODULE windows_host)
       = (True, [0x10000, 0x20000, 0x30000], 24)
   \<and> unat (24 :: 32 word) div sizeof_HMODULE windows_host = 3
   \<and> (\<exists>s'. LookupSymbolInProcess windows_host ''puts'' initial_state = Some ((0x20040, None), s')
            \<and> new_calls initial_state s' =
                 [Call_CoTaskMemAlloc, Call_CoTaskMemFree 0x500, Call_OpenProcess,
                  Call_EnumProcessModules 0x44, Call_GetProcAddress 0x10000 ''puts'',
                  Call_GetProcAddress 0x20000 ''puts'', Call_CloseHandle 0x44])
   \<and> (\<exists>s'. LookupSymbolInProcess windows_host ''missing_fn'' initial_state
              = Some ((0, Some (not_found_message ''missing_fn'')), s')
            \<and> new_calls initial_state s' =
                 [Call_CoTaskMemAlloc, Call_CoTaskMemFree 0x500, Call_OpenProcess,
                  Call_EnumProcessModules 0x44, Call_GetProcAddress 0x10000 ''missing_fn'',
                  Call_GetProcAddress 0x20000 ''missing_fn'',
                  Call_GetProcAddress 0x30000 ''missing_fn'', Call_CloseHandle 0x44])
   \<and> sublist ''missing_fn'' (not_found_message ''missing_fn'')"
proof -
  have o: "OpenProcess windows_host \<noteq> 0"
    by (simp add: windows_host_def)
  have e: "EnumProcessModules windows_host (OpenProcess windows_host)
             (1024 * sizeof_HMODULE windows_host)
       = (True, [0x10000, 0x20000, 0x30000], 24)"
    by (simp add: windows_host_def)
  have n: "unat (24 :: 32 word) div sizeof_HMODULE windows_host = 3"
    by (simp add: sizeof_HMODULE_def)
  have b: "unat (24 :: 32 word) div sizeof_HMODULE windows_host
             \<le> length [0x10000, 0x20000, 0x30000 :: 64 word]"
    "unat (24 :: 32 word) div sizeof_HMODULE windows_host \<le> 1024"
    by (simp_all add: sizeof_HMODULE_def)
  have g: "GetProcAddress windows_host = (\<lambda>m symbol. if m = 0x20000 \<and> symbol = ''puts'' then 0x20040
                    else if m = 0x30000 \<and> symbol = ''puts'' then 0x30040
                    else 0)"
    "CoTaskMemAlloc windows_host = 0x500" "OpenProcess windows_host = 0x44"
    by (simp_all add: windows_host_def)
  from LookupSymbolInProcess_first_hit [OF o e b, where symbol = "''puts''" and s = initial_state]
  have 1: "\<exists>s'. LookupSymbolInProcess windows_host ''puts'' initial_state = Some ((0x20040, None), s')
            \<and> new_calls initial_state s' =
                 [Call_CoTaskMemAlloc, Call_CoTaskMemFree 0x500, Call_OpenProcess,
                  Call_EnumProcessModules 0x44, Call_GetProcAddress 0x10000 ''puts'',
                  Call_GetProcAddress 0x20000 ''puts'', Call_CloseHandle 0x44]"
    by (simp add: sizeof_HMODULE_def g Let_def force_load_calls_def probes_def initial_state_def)
  from LookupSymbolInProcess_first_hit [OF o e b, where symbol = "''missing_fn''" and s = initial_state]
  have 2: "(\<exists>s'. LookupSymbolInProcess windows_host ''missing_fn'' initial_state
              = Some ((0, Some (not_found_message ''missing_fn'')), s')
            \<and> new_calls initial_state s' =
                 [Call_CoTaskMemAlloc, Call_CoTaskMemFree 0x500, Call_OpenProcess,
                  Call_EnumProcessModules 0x44, Call_GetProcAddress 0x10000 ''missing_fn'',
                  Call_GetProcAddress 0x20000 ''missing_fn'',
                  Call_GetProcAddress 0x30000 ''missing_fn'', Call_CloseHandle 0x44])
      \<and> sublist ''missing_fn'' (not_found_message ''missing_fn'')"
    by (simp add: sizeof_HMODULE_def g Let_def force_load_calls_def probes_def initial_state_def)
  from o e n 1 2 show ?thesis by blast
qed

text \<open>
  C6 fails past the array. With 1025 loaded modules, none of which has the symbol,
  \<^verbatim>\<open>cb_needed / sizeof(HMODULE)\<close> is 1025: after the 1024 enumerated modules the loop of
  line 109 reads \<^verbatim>\<open>modules[1024]\<close>, one past the end of the array, where the scan should
  return the null pointer and the error of a symbol that no module has. The read is
  undefined, and the scan has no result.
\<close>

theorem scan_reads_past_the_array:
  "OpenProcess crowded_host = 0x44
   \<and> EnumProcessModules crowded_host (OpenProcess crowded_host) (1024 * sizeof_HMODULE crowded_host)
       = (True, map (\<lambda>i. 0x10000 * of_nat (Suc i)) [0..<1024], 8200)
   \<and> unat (8200 :: 32 word) div sizeof_HMODULE crowded_host = 1025
   \<and> find (\<lambda>m. GetProcAddress crowded_host m ''missing_fn'' \<noteq> 0)
         (map (\<lambda>i. 0x10000 * of_nat (Suc i)) [0..<1024]) = None
   \<and> LookupSymbolInProcess crowded_host ''missing_fn'' initial_state = None"
proof -
  have o: "OpenProcess crowded_host = 0x44" "OpenProcess crowded_host \<noteq> 0"
    by (simp_all add: crowded_host_def windows_host_def)
  have e: "EnumProcessModules crowded_host (OpenProcess crowded_host)
             (1024 * sizeof_HMODULE crowded_host)
       = (True, map (\<lambda>i. 0x10000 * of_nat (Suc i)) [0..<1024], 8200)"
    by (simp add: crowded_host_def)
  have n: "unat (8200 :: 32 word) div sizeof_HMODULE crowded_host = 1025"
    by (simp add: sizeof_HMODULE_def)
  have b: "min (length (map (\<lambda>i. 0x10000 * of_nat (Suc i) :: 64 word) [0..<1024])) 1024
             < unat (8200 :: 32 word) div sizeof_HMODULE crowded_host"
    by (simp add: sizeof_HMODULE_def)
  have g: "GetProcAddress crowded_host m ''missing_fn'' = 0" for m
    by (simp add: crowded_host_def)
  have a: "list_all (\<lambda>m. GetProcAddress crowded_host m ''missing_fn'' = 0)
             (take 1024 (map (\<lambda>i. 0x10000 * of_nat (Suc i)) [0..<1024]))"
    by (simp add: list_all_iff g)
  have f: "find (\<lambda>m. GetProcAddress crowded_host m ''missing_fn'' \<noteq> 0)
             (map (\<lambda>i. 0x10000 * of_nat (Suc i)) [0..<1024]) = None"
    by (simp add: find_None_iff g)
  from scan_overrun [OF o(2) e b a, of initial_state] o(1) e n f show ?thesis
    by blast
qed

lemma scan_absent:
  assumes "symbol_absent q symbol"
  shows "\<exists>t'. LookupSymbolInProcess q symbol t = Some ((0, Some (not_found_message symbol)), t')"
proof -
  obtain ok modules cb_needed where
    e: "EnumProcessModules q (OpenProcess q) (1024 * sizeof_HMODULE q) = (ok, modules, cb_needed)"
    by (cases "EnumProcessModules q (OpenProcess q) (1024 * sizeof_HMODULE q)")
  from assms e have o: "OpenProcess q \<noteq> 0"
    and e': "EnumProcessModules q (OpenProcess q) (1024 * sizeof_HMODULE q) = (True, modules, cb_needed)"
    and b: "unat cb_needed div sizeof_HMODULE q \<le> length modules"
       "unat cb_needed div sizeof_HMODULE q \<le> 1024"
    and a: "list_all (\<lambda>m. GetProcAddress q m symbol = 0)
                  (take (unat cb_needed div sizeof_HMODULE q) modules)"
    by (simp_all add: symbol_absent_def)
  from a have "find (\<lambda>m. GetProcAddress q m symbol \<noteq> 0)
                  (take (unat cb_needed div sizeof_HMODULE q) modules) = None"
    by (simp add: find_None_iff list_all_iff)
  with scan_in_bounds [OF o e' b, of symbol t] show ?thesis by auto
qed

text \<open>
  C9. The scan returns the error \<^verbatim>\<open>Failed to open current process.\<close> if and only if
  \<^verbatim>\<open>OpenProcess\<close> returned null. When the process was opened and \<^verbatim>\<open>EnumProcessModules\<close>
  fails, the scan returns the null pointer with the message of a symbol that no module
  has: its result is the result of a scan whose enumeration succeeded and found the
  symbol in no module.
\<close>

theorem enumeration_failure_reported_as_absence:
  "((\<exists>ptr s'. LookupSymbolInProcess p symbol s =
                 Some ((ptr, Some ''Failed to open current process.''), s'))
      \<longleftrightarrow> OpenProcess p = 0)
   \<and> (enumeration_fails p \<longrightarrow>
        (\<exists>s'. LookupSymbolInProcess p symbol s = Some ((0, Some (not_found_message symbol)), s')))
   \<and> (symbol_absent q symbol \<longrightarrow>
        (\<exists>t'. LookupSymbolInProcess q symbol t = Some ((0, Some (not_found_message symbol)), t')))
   \<and> (enumeration_fails p \<and> symbol_absent q symbol \<longrightarrow>
        map_option fst (LookupSymbolInProcess p symbol s)
          = map_option fst (LookupSymbolInProcess q symbol t))"
proof -
  have 1: "(\<exists>ptr s'. LookupSymbolInProcess p symbol s =
                 Some ((ptr, Some ''Failed to open current process.''), s'))
      \<longleftrightarrow> OpenProcess p = 0"
  proof
    assume "OpenProcess p = 0"
    from scan_open_failed [OF this, of symbol s]
    show "\<exists>ptr s'. LookupSymbolInProcess p symbol s =
                 Some ((ptr, Some ''Failed to open current process.''), s')"
      by blast
  next
    assume "\<exists>ptr s'. LookupSymbolInProcess p symbol s =
                 Some ((ptr, Some ''Failed to open current process.''), s')"
    then obtain ptr s' where
      r: "LookupSymbolInProcess p symbol s = Some ((ptr, Some ''Failed to open current process.''), s')"
      by blast
    show "OpenProcess p = 0"
    proof (rule ccontr)
      assume n: "OpenProcess p \<noteq> 0"
      obtain ok modules cb_needed where
        e: "EnumProcessModules p (OpenProcess p) (1024 * sizeof_HMODULE p) = (ok, modules, cb_needed)"
        by (cases "EnumProcessModules p (OpenProcess p) (1024 * sizeof_HMODULE p)")
      from r n e show False
        by (auto simp: LookupSymbolInProcess_def Let_def OS_SCreate_def apostrophe_def
            split: option.splits prod.splits if_splits)
    qed
  qed
  have 2: "\<exists>s'. LookupSymbolInProcess p symbol s = Some ((0, Some (not_found_message symbol)), s')"
    if "enumeration_fails p"
  proof -
    from that obtain modules cb_needed where
      o: "OpenProcess p \<noteq> 0" and
      "EnumProcessModules p (OpenProcess p) (1024 * sizeof_HMODULE p) = (False, modules, cb_needed)"
      by (cases "EnumProcessModules p (OpenProcess p) (1024 * sizeof_HMODULE p)")
        (auto simp: enumeration_fails_def)
    from scan_enum_failed [OF o this(2), of symbol s] show ?thesis by blast
  qed
  have 3: "\<exists>t'. LookupSymbolInProcess q symbol t = Some ((0, Some (not_found_message symbol)), t')"
    if "symbol_absent q symbol"
    using that by (rule scan_absent)
  have 4: "map_option fst (LookupSymbolInProcess p symbol s)
          = map_option fst (LookupSymbolInProcess q symbol t)"
    if "enumeration_fails p \<and> symbol_absent q symbol"
    using 2 3 that by auto
  from 1 2 3 4 show ?thesis by blast
qed

theorem enumeration_failure_reported_as_absence_witness:
  "OpenProcess no_process_host = 0
   \<and> (\<exists>ptr s'. LookupSymbolInProcess no_process_host ''puts'' initial_state =
                 Some ((ptr, Some ''Failed to open current process.''), s'))
   \<and> enumeration_fails no_enumeration_host
   \<and> symbol_absent windows_host ''missing_fn''
   \<and> map_option fst (LookupSymbolInProcess no_enumeration_host ''missing_fn'' initial_state)
       = Some (0, Some (not_found_message ''missing_fn''))
   \<and> map_option fst (LookupSymbolInProcess windows_host ''missing_fn'' initial_state)
       = Some (0, Some (not_found_message ''missing_fn''))"
proof -
  have o: "OpenProcess no_process_host = 0"
    by (simp add: no_process_host_def)
  have f: "enumeration_fails no_enumeration_host"
    by (simp add: enumeration_fails_def no_enumeration_host_def windows_host_def)
  have a: "symbol_absent windows_host ''missing_fn''"
    by (simp add: symbol_absent_def windows_host_def sizeof_HMODULE_def)
  note t = enumeration_failure_reported_as_absence
    [where p = no_enumeration_host and q = windows_host and symbol = "''missing_fn''"
       and s = initial_state and t = initial_state]
  note u = enumeration_failure_reported_as_absence
    [where p = no_process_host and symbol = "''puts''" and s = initial_state]
  from u o have 1: "\<exists>ptr s'. LookupSymbolInProcess no_process_host ''puts'' initial_state =
                 Some ((ptr, Some ''Failed to open current process.''), s')"
    by blast
  from t f have 2: "map_option fst (LookupSymbolInProcess no_enumeration_host ''missing_fn'' initial_state)
       = Some (0, Some (not_found_message ''missing_fn''))"
    by auto
  from t a have 3: "map_option fst (LookupSymbolInProcess windows_host ''missing_fn'' initial_state)
       = Some (0, Some (not_found_message ''missing_fn''))"
    by auto
  from o f a 1 2 3 show ?thesis by blast
qed

lemma scans_guard:
  "co_task_mem_allocated s \<noteq> 0 \<Longrightarrow> scans ps s = Some s' \<Longrightarrow>
   co_task_mem_allocated s' = co_task_mem_allocated s \<and>
   (\<exists>cs. calls s' = calls s @ cs \<and> Call_CoTaskMemAlloc \<notin> set cs \<and> (\<forall>a. Call_CoTaskMemFree a \<notin> set cs))"
proof (induction ps arbitrary: s)
  case Nil
  then show ?case by simp
next
  case (Cons a ps)
  obtain p symbol where a: "a = (p, symbol)" by (cases a)
  from Cons.prems a obtain ptr error s1 where
    1: "LookupSymbolInProcess p symbol s = Some ((ptr, error), s1)" and 2: "scans ps s1 = Some s'"
    by (auto split: option.splits)
  from scan_frame [OF 1] Cons.prems(1) have
    g: "co_task_mem_allocated s1 = co_task_mem_allocated s"
    and c: "\<exists>cs. calls s1 = calls s @ cs \<and> Call_CoTaskMemAlloc \<notin> set cs \<and> (\<forall>a. Call_CoTaskMemFree a \<notin> set cs)"
    by (auto simp: forced_def force_load_calls_def probes_def)
  from Cons.IH [OF _ 2] g Cons.prems(1) have
    "co_task_mem_allocated s' = co_task_mem_allocated s1 \<and>
     (\<exists>cs. calls s' = calls s1 @ cs \<and> Call_CoTaskMemAlloc \<notin> set cs \<and> (\<forall>a. Call_CoTaskMemFree a \<notin> set cs))"
    by simp
  with g c show ?case by auto
qed

lemma scans_return:
  "list_all (\<lambda>(p, symbol). snapshot_in_bounds p) ps \<Longrightarrow> \<exists>s'. scans ps s = Some s'"
proof (induction ps arbitrary: s)
  case Nil
  then show ?case by simp
next
  case (Cons a ps)
  obtain p symbol where a: "a = (p, symbol)" by (cases a)
  with Cons.prems have "snapshot_in_bounds p" by simp
  from scan_returns [OF this, of symbol s] obtain r s1 where
    "LookupSymbolInProcess p symbol s = Some (r, s1)" by blast
  moreover from Cons.prems have "list_all (\<lambda>(p, symbol). snapshot_in_bounds p) ps" by simp
  from Cons.IH [OF this, of s1] obtain s' where "scans ps s1 = Some s'" by blast
  ultimately show ?case using a by simp
qed

text \<open>
  C8. A scan leaves \<^verbatim>\<open>co_task_mem_allocated\<close> as it found it when it was not null, and
  sets it to the result of \<^verbatim>\<open>CoTaskMemAlloc\<close> when it was null; a second scan against
  the same platform leaves it as the first left it. Once it is not null it keeps its value
  through every later sequence of scans, whatever the platforms answer, and none of
  these scans calls \<^verbatim>\<open>CoTaskMemAlloc\<close> or \<^verbatim>\<open>CoTaskMemFree\<close>.
\<close>

theorem co_task_mem_allocated_monotone:
  "(\<forall>r s'. LookupSymbolInProcess p symbol s = Some (r, s') \<longrightarrow>
      co_task_mem_allocated s' =
        (if co_task_mem_allocated s = 0 then CoTaskMemAlloc p else co_task_mem_allocated s)
      \<and> (\<forall>symbol' r' s''. LookupSymbolInProcess p symbol' s' = Some (r', s'') \<longrightarrow>
            co_task_mem_allocated s'' = co_task_mem_allocated s'))
   \<and> (co_task_mem_allocated s \<noteq> 0 \<longrightarrow>
        (\<forall>ps s'. scans ps s = Some s' \<longrightarrow>
           co_task_mem_allocated s' = co_task_mem_allocated s
           \<and> Call_CoTaskMemAlloc \<notin> set (new_calls s s')
           \<and> (\<forall>a. Call_CoTaskMemFree a \<notin> set (new_calls s s'))))"
proof (intro conjI allI impI)
  fix r s'
  assume "LookupSymbolInProcess p symbol s = Some (r, s')"
  then have a: "LookupSymbolInProcess p symbol s = Some ((fst r, snd r), s')" by simp
  from scan_frame [OF a]
  show g: "co_task_mem_allocated s' =
        (if co_task_mem_allocated s = 0 then CoTaskMemAlloc p else co_task_mem_allocated s)"
    by (simp add: forced_def)
  fix symbol' r' s''
  assume "LookupSymbolInProcess p symbol' s' = Some (r', s'')"
  then have b: "LookupSymbolInProcess p symbol' s' = Some ((fst r', snd r'), s'')" by simp
  from scan_frame [OF b] g
  show "co_task_mem_allocated s'' = co_task_mem_allocated s'"
    by (simp add: forced_def)
next
  fix ps s'
  assume "co_task_mem_allocated s \<noteq> 0" "scans ps s = Some s'"
  from scans_guard [OF this] obtain cs where
    r: "co_task_mem_allocated s' = co_task_mem_allocated s" "calls s' = calls s @ cs"
      "Call_CoTaskMemAlloc \<notin> set cs" "\<forall>a. Call_CoTaskMemFree a \<notin> set cs"
    by blast
  from r show "co_task_mem_allocated s' = co_task_mem_allocated s" by simp
  from r show "Call_CoTaskMemAlloc \<notin> set (new_calls s s')" by simp
  from r show "\<And>a. Call_CoTaskMemFree a \<notin> set (new_calls s s')" by simp
qed

text \<open>
  The first scan on the Windows platform sets the guard, the second keeps it; from a
  state with the guard set, two scans keep it and allocate nothing.
\<close>

theorem co_task_mem_allocated_monotone_witness:
  "co_task_mem_allocated initial_state = 0
   \<and> (\<exists>r s'. LookupSymbolInProcess windows_host ''puts'' initial_state = Some (r, s')
         \<and> co_task_mem_allocated s' = 0x500
         \<and> (\<exists>r' s''. LookupSymbolInProcess windows_host ''missing_fn'' s' = Some (r', s'')
               \<and> co_task_mem_allocated s'' = 0x500))
   \<and> co_task_mem_allocated warm_state \<noteq> 0
   \<and> (\<exists>s'. scans [(windows_host, ''puts''), (no_enumeration_host, ''missing_fn'')] warm_state
              = Some s'
         \<and> co_task_mem_allocated s' = 0x500
         \<and> Call_CoTaskMemAlloc \<notin> set (new_calls warm_state s')
         \<and> Call_CoTaskMemFree 0x500 \<notin> set (new_calls warm_state s'))"
proof -
  have i: "co_task_mem_allocated initial_state = 0"
    by (simp add: initial_state_def)
  have w: "co_task_mem_allocated warm_state \<noteq> 0" "co_task_mem_allocated warm_state = 0x500"
    by (simp_all add: warm_state_def initial_state_def)
  have a: "CoTaskMemAlloc windows_host = 0x500"
    by (simp add: windows_host_def)
  have b: "snapshot_in_bounds no_enumeration_host"
    by (simp add: snapshot_in_bounds_def no_enumeration_host_def)
  from scan_returns [OF windows_in_bounds, of "''puts''" initial_state] obtain r s' where
    1: "LookupSymbolInProcess windows_host ''puts'' initial_state = Some (r, s')" by blast
  from scan_returns [OF windows_in_bounds, of "''missing_fn''" s'] obtain r' s'' where
    2: "LookupSymbolInProcess windows_host ''missing_fn'' s' = Some (r', s'')" by blast
  note t = co_task_mem_allocated_monotone
    [where p = windows_host and symbol = "''puts''" and s = initial_state]
  from t 1 i a have 3: "co_task_mem_allocated s' = 0x500"
    by auto
  from t 1 2 3 have 4: "co_task_mem_allocated s'' = 0x500"
    by (cases r') auto
  from scans_return [of "[(windows_host, ''puts''), (no_enumeration_host, ''missing_fn'')]" warm_state]
    windows_in_bounds b
  obtain s3 where
    5: "scans [(windows_host, ''puts''), (no_enumeration_host, ''missing_fn'')] warm_state = Some s3"
    by auto
  from co_task_mem_allocated_monotone
    [where p = windows_host and symbol = "''puts''" and s = warm_state] w(1)
  have g: "\<forall>ps s'. scans ps warm_state = Some s' \<longrightarrow>
           co_task_mem_allocated s' = co_task_mem_allocated warm_state
           \<and> Call_CoTaskMemAlloc \<notin> set (new_calls warm_state s')
           \<and> (\<forall>a. Call_CoTaskMemFree a \<notin> set (new_calls warm_state s'))"
    by blast
  from g [rule_format, OF 5] w(2)
  have 6: "co_task_mem_allocated s3 = 0x500
         \<and> Call_CoTaskMemAlloc \<notin> set (new_calls warm_state s3)
         \<and> Call_CoTaskMemFree 0x500 \<notin> set (new_calls warm_state s3)"
    by simp
  from i w 1 2 3 4 5 6 show ?thesis by blast
qed

section \<open>The platform loader\<close>

lemma load_failed_message_ne: "load_failed_message library_file u \<noteq> u"
proof
  assume "load_failed_message library_file u = u"
  then have "length (load_failed_message library_file u) = length u" by simp
  then show False by (simp add: load_failed_message_def)
qed

lemma load_failed:
  assumes "Utils_LoadDynamicLibrary p library_file = (handle, Some diagnostic)"
  shows "\<exists>s'. LoadDynamicLibrary p library_file True s =
                ((handle, Some (load_failed_message library_file diagnostic)), s')
            \<and> live_errors s' = load_failed_message library_file diagnostic # live_errors s
            \<and> calls s' = calls s @ [Call_Utils_LoadDynamicLibrary library_file]
            \<and> co_task_mem_allocated s' = co_task_mem_allocated s"
  using assms load_failed_message_ne [of library_file diagnostic]
  by (simp add: LoadDynamicLibrary_def OS_SCreate_def Let_def load_failed_message_def)

text \<open>
  C7, as the file has it. A failed open is one for which \<^verbatim>\<open>Utils::LoadDynamicLibrary\<close>
  stored a diagnostic. When the caller passes an error cell, \<^verbatim>\<open>LoadDynamicLibrary\<close>
  returns the handle of the platform loader with the error
  \<^verbatim>\<open>Failed to load dynamic library '<path>': <diagnostic>\<close>, which contains the
  diagnostic and the path (\<^verbatim>\<open><process>\<close> when no path was given); \<^verbatim>\<open>Ffi_dl_open\<close> throws
  an \<^verbatim>\<open>ArgumentError\<close> with that text and frees the message. When the caller passes no
  error cell, as \<^verbatim>\<open>Ffi_dl_executableLibrary\<close> does for the main executable, the failure
  produces no error: the library object holds the handle of the platform loader.
\<close>

theorem failed_open_with_error_cell:
  assumes "Utils_LoadDynamicLibrary p library_file = (handle, Some diagnostic)"
  shows "(\<exists>s'. LoadDynamicLibrary p library_file True s =
                ((handle, Some (load_failed_message library_file diagnostic)), s')
            \<and> live_errors s' = load_failed_message library_file diagnostic # live_errors s)
     \<and> sublist diagnostic (load_failed_message library_file diagnostic)
     \<and> sublist (case library_file of Some f \<Rightarrow> f | None \<Rightarrow> ''<process>'')
          (load_failed_message library_file diagnostic)
     \<and> (\<forall>lib_path. library_file = Some lib_path \<longrightarrow>
           (\<exists>s'. Ffi_dl_open p lib_path s =
                   (Inl (ArgumentError (load_failed_message library_file diagnostic)), s')
                \<and> live_errors s' = live_errors s))
     \<and> (\<exists>s'. LoadDynamicLibrary p library_file False s = ((handle, None), s')
            \<and> live_errors s' = live_errors s)
     \<and> (library_file = None \<longrightarrow>
           (\<exists>s'. Ffi_dl_executableLibrary p s = (DynamicLibrary_New handle, s')
                \<and> live_errors s' = live_errors s))"
proof (intro conjI allI impI)
  from load_failed [OF assms, of s]
  show "\<exists>s'. LoadDynamicLibrary p library_file True s =
                ((handle, Some (load_failed_message library_file diagnostic)), s')
            \<and> live_errors s' = load_failed_message library_file diagnostic # live_errors s"
    by blast
  show "sublist diagnostic (load_failed_message library_file diagnostic)"
    unfolding load_failed_message_def by (rule sublist_last5)
  show "sublist (case library_file of Some f \<Rightarrow> f | None \<Rightarrow> ''<process>'')
          (load_failed_message library_file diagnostic)"
    unfolding load_failed_message_def by (rule sublist_mid2)
  show n: "\<exists>s'. LoadDynamicLibrary p library_file False s = ((handle, None), s')
            \<and> live_errors s' = live_errors s"
    using assms by (simp add: LoadDynamicLibrary_def Let_def)
  then show "\<exists>s'. Ffi_dl_executableLibrary p s = (DynamicLibrary_New handle, s')
                \<and> live_errors s' = live_errors s" if "library_file = None"
    using that by (auto simp: Ffi_dl_executableLibrary_def)
next
  fix lib_path
  assume l: "library_file = Some lib_path"
  from load_failed [OF assms, of s] l
  show "\<exists>s'. Ffi_dl_open p lib_path s =
                   (Inl (ArgumentError (load_failed_message library_file diagnostic)), s')
                \<and> live_errors s' = live_errors s"
    by (auto simp: Ffi_dl_open_def)
qed

theorem failed_open_with_error_cell_witness:
  "Utils_LoadDynamicLibrary linux_host (Some ''libbar.so'')
     = (0, Some ''cannot open shared object file'')
   \<and> (\<exists>s'. Ffi_dl_open linux_host ''libbar.so'' initial_state
              = (Inl (ArgumentError
                   (load_failed_message (Some ''libbar.so'') ''cannot open shared object file'')), s')
            \<and> live_errors s' = live_errors initial_state)
   \<and> sublist ''libbar.so''
         (load_failed_message (Some ''libbar.so'') ''cannot open shared object file'')
   \<and> sublist ''cannot open shared object file''
         (load_failed_message (Some ''libbar.so'') ''cannot open shared object file'')"
proof -
  have u: "Utils_LoadDynamicLibrary linux_host (Some ''libbar.so'')
     = (0, Some ''cannot open shared object file'')"
    by (simp add: linux_host_def)
  from u failed_open_with_error_cell [OF u, where s = initial_state]
  show ?thesis by simp
qed

text \<open>
  C7, as the claim states it, fails for the main executable: on the Linux platform the
  open of the main executable fails with a diagnostic, and \<^verbatim>\<open>Ffi_dl_executableLibrary\<close>
  returns a library with the null handle and no error.
\<close>

theorem executable_library_failure_is_silent:
  "Utils_LoadDynamicLibrary linux_host None = (0, Some ''cannot open shared object file'')
   \<and> LoadDynamicLibrary linux_host None False initial_state
       = ((0, None), appended [Call_Utils_LoadDynamicLibrary None] initial_state)
   \<and> Ffi_dl_executableLibrary linux_host initial_state
       = (DynamicLibrary_New 0, appended [Call_Utils_LoadDynamicLibrary None] initial_state)"
  by (simp add: Ffi_dl_executableLibrary_def LoadDynamicLibrary_def linux_host_def Let_def
      own_error_def appended_eq_call)

section \<open>The handle of a library\<close>

lemma sint_eq_uint_clear:
  fixes x :: "'w::len word"
  assumes "\<not> bit x (LENGTH('w) - Suc 0)"
  shows "sint x = uint x"
proof -
  have b: "\<not> bit (uint x) (LENGTH('w) - Suc 0)"
    using assms by (simp add: bit_uint_iff)
  have n: "Suc (LENGTH('w) - Suc 0) = LENGTH('w)"
    by simp
  have "sint x = signed_take_bit (LENGTH('w) - Suc 0) (uint x)"
    by (rule sint_uint)
  also have "\<dots> = take_bit (LENGTH('w) - Suc 0) (uint x)"
    using b by (rule signed_take_bit_eq_if_positive)
  also have "\<dots> = take_bit (Suc (LENGTH('w) - Suc 0)) (uint x)"
    using b by (simp only: take_bit_Suc_from_most of_bool_def if_False mult_zero_right add_0)
  also have "\<dots> = uint x"
    unfolding n by (rule bintr_uint) simp
  finally show ?thesis .
qed

lemma gh_uint_pos:
  fixes x :: "'w::len word"
  assumes "LENGTH('w) \<le> 64" "\<not> bit x (LENGTH('w) - 1)"
  shows "uint (word_of_int (sint x) :: 64 word) = uint x"
proof -
  have "uint (ucast x :: 64 word) = uint x"
    by (rule uint_up_ucast) (simp add: is_up assms(1))
  moreover have "sint x = uint x"
    using assms(2) by (intro sint_eq_uint_clear) simp
  ultimately show ?thesis by simp
qed

lemma gh_sint:
  fixes x :: "'w::len word"
  assumes "LENGTH('w) \<le> 64"
  shows "sint (word_of_int (sint x) :: 64 word) = sint x"
proof -
  have "sint (scast x :: 64 word) = sint x"
    by (rule sint_up_scast) (simp add: is_up assms)
  then show ?thesis by (simp only: scast_eq)
qed

lemma gh_uint64:
  fixes x :: "'w::len word"
  assumes "LENGTH('w) = 64"
  shows "uint (word_of_int (sint x) :: 64 word) = uint x"
proof -
  have "(ucast :: 'w word \<Rightarrow> 64 word) = scast"
    by (rule down_cast_same) (simp add: is_down assms)
  then have "word_of_int (sint x) = (ucast x :: 64 word)"
    by (simp only: scast_eq [symmetric])
  moreover have "uint (ucast x :: 64 word) = uint x"
    by (rule uint_up_ucast) (simp add: is_up assms)
  ultimately show ?thesis by simp
qed

text \<open>
  C10, as the file has it. \<^verbatim>\<open>Ffi_dl_getHandle\<close> passes the \<^verbatim>\<open>intptr_t\<close> value of the stored handle to
  \<^verbatim>\<open>Integer::NewFromUint64\<close>: the signed value of the result is the signed value of the
  handle, and the result is the handle sign-extended to 64 bits. Its unsigned value is
  the unsigned value of the handle when pointers have 64 bits, and at any width when the
  top bit of the handle is clear. A null handle gives 0, so the handle of the process
  library is 0 on Windows and wherever \<^verbatim>\<open>RTLD_DEFAULT\<close> is the null pointer.
\<close>

theorem Ffi_dl_getHandle_value:
  fixes dlib :: "('w::len) word DynamicLibrary" and p :: "('v::len) word platform"
  shows "Ffi_dl_getHandle dlib = scast (GetHandle dlib)
     \<and> (LENGTH('w) \<le> 64 \<longrightarrow> sint (Ffi_dl_getHandle dlib) = sint (GetHandle dlib))
     \<and> (LENGTH('w) = 64 \<longrightarrow> uint (Ffi_dl_getHandle dlib) = uint (GetHandle dlib))
     \<and> (LENGTH('w) \<le> 64 \<and> \<not> bit (GetHandle dlib) (LENGTH('w) - 1) \<longrightarrow>
          uint (Ffi_dl_getHandle dlib) = uint (GetHandle dlib))
     \<and> (GetHandle dlib = 0 \<longrightarrow> Ffi_dl_getHandle dlib = 0)
     \<and> (host p = Windows \<or> RTLD_DEFAULT p = 0 \<longrightarrow>
          Ffi_dl_getHandle (Ffi_dl_processLibrary p) = 0)"
proof (intro conjI impI)
  show "Ffi_dl_getHandle dlib = scast (GetHandle dlib)"
    by (simp only: Ffi_dl_getHandle_def Let_def scast_eq)
  show "sint (Ffi_dl_getHandle dlib) = sint (GetHandle dlib)" if "LENGTH('w) \<le> 64"
    using gh_sint [OF that] by (simp add: Ffi_dl_getHandle_def)
  show "uint (Ffi_dl_getHandle dlib) = uint (GetHandle dlib)" if "LENGTH('w) = 64"
    using gh_uint64 [OF that] by (simp add: Ffi_dl_getHandle_def)
  show "uint (Ffi_dl_getHandle dlib) = uint (GetHandle dlib)"
    if "LENGTH('w) \<le> 64 \<and> \<not> bit (GetHandle dlib) (LENGTH('w) - 1)"
    using gh_uint_pos [of "GetHandle dlib"] that by (simp add: Ffi_dl_getHandle_def)
  show "Ffi_dl_getHandle dlib = 0" if "GetHandle dlib = 0"
    using that by (simp add: Ffi_dl_getHandle_def)
  show "Ffi_dl_getHandle (Ffi_dl_processLibrary p) = 0" if "host p = Windows \<or> RTLD_DEFAULT p = 0"
    using that
    by (auto simp: Ffi_dl_getHandle_def Ffi_dl_processLibrary_def kWindowsDynamicLibraryProcessPtr_def)
qed

theorem Ffi_dl_getHandle_value_witness:
  "LENGTH(64) \<le> (64 :: nat)
   \<and> sint (Ffi_dl_getHandle (DynamicLibrary_New (0xFFFFFFFFFFFFFFFE :: 64 word)))
       = sint (0xFFFFFFFFFFFFFFFE :: 64 word)
   \<and> uint (Ffi_dl_getHandle (DynamicLibrary_New (0xFFFFFFFFFFFFFFFE :: 64 word)))
       = uint (0xFFFFFFFFFFFFFFFE :: 64 word)
   \<and> host windows_host = Windows
   \<and> Ffi_dl_getHandle (Ffi_dl_processLibrary windows_host) = 0
   \<and> RTLD_DEFAULT linux_host = 0
   \<and> Ffi_dl_getHandle (Ffi_dl_processLibrary linux_host) = 0
   \<and> LENGTH(32) \<le> (64 :: nat)
   \<and> \<not> bit (0x7000 :: 32 word) (LENGTH(32) - 1)
   \<and> uint (Ffi_dl_getHandle (DynamicLibrary_New (0x7000 :: 32 word))) = uint (0x7000 :: 32 word)"
proof -
  have h: "host windows_host = Windows" "RTLD_DEFAULT linux_host = 0"
    by (simp_all add: windows_host_def linux_host_def)
  have l: "LENGTH(64) \<le> (64 :: nat)" "LENGTH(64) = (64 :: nat)"
    by simp_all
  note t = Ffi_dl_getHandle_value
    [where dlib = "DynamicLibrary_New (0xFFFFFFFFFFFFFFFE :: 64 word)" and p = windows_host]
  note u = Ffi_dl_getHandle_value
    [where dlib = "DynamicLibrary_New (0 :: 64 word)" and p = linux_host]
  from t l have 1: "sint (Ffi_dl_getHandle (DynamicLibrary_New (0xFFFFFFFFFFFFFFFE :: 64 word)))
       = sint (0xFFFFFFFFFFFFFFFE :: 64 word)"
    "uint (Ffi_dl_getHandle (DynamicLibrary_New (0xFFFFFFFFFFFFFFFE :: 64 word)))
       = uint (0xFFFFFFFFFFFFFFFE :: 64 word)"
    by simp_all
  from t h have 2: "Ffi_dl_getHandle (Ffi_dl_processLibrary windows_host) = 0"
    by blast
  from u h have 3: "Ffi_dl_getHandle (Ffi_dl_processLibrary linux_host) = 0"
    by blast
  have m: "LENGTH(32) \<le> (64 :: nat)" "\<not> bit (0x7000 :: 32 word) (LENGTH(32) - 1)"
    by (simp_all add: bit_iff_odd)
  from Ffi_dl_getHandle_value
    [where dlib = "DynamicLibrary_New (0x7000 :: 32 word)" and p = linux_host] m
  have 4: "uint (Ffi_dl_getHandle (DynamicLibrary_New (0x7000 :: 32 word))) = uint (0x7000 :: 32 word)"
    by simp
  from h l m 1 2 3 4 show ?thesis by blast
qed

text \<open>
  C10, as the claim states it, fails on a build with 32-bit pointers: a handle with its
  top bit set has a negative \<^verbatim>\<open>intptr_t\<close> value, the conversion to \<^verbatim>\<open>uint64_t\<close> extends
  the sign, and the result is not the numeric value of the handle.
\<close>

theorem Ffi_dl_getHandle_sign_extends:
  "Ffi_dl_getHandle (DynamicLibrary_New (0x80000000 :: 32 word)) = 0xFFFFFFFF80000000
   \<and> uint (Ffi_dl_getHandle (DynamicLibrary_New (0x80000000 :: 32 word)))
       \<noteq> uint (0x80000000 :: 32 word)"
  by (simp add: Ffi_dl_getHandle_def)

end
